theory Spec2Isabelle
  imports Complex_Main
begin

section \<open>Python values\<close>

text \<open>
  Python floats are idealised as real numbers: rounding, infinities and NaN are outside
  this development. Exceptions are values of the type \<open>error\<close>; a function that can raise
  returns \<open>error + 'a\<close>, with \<open>Inl\<close> for the exception. \<open>LibraryError\<close> stands for an
  exception of matplotlib, cartopy or numpy that is none of the four built-in ones
  (\<open>LinAlgError\<close>, for instance).
\<close>

datatype error = AssertionError | ValueError | TypeError | IndexError | LibraryError

definition ebind :: "error + 'a \<Rightarrow> ('a \<Rightarrow> error + 'b) \<Rightarrow> error + 'b" where
  \<comment> \<open>Sequencing: an exception raised by the first computation ends the whole.\<close>
  "ebind m f = (case m of Inl e \<Rightarrow> Inl e | Inr x \<Rightarrow> f x)"

text \<open>
  An extent is a Python sequence of numbers. The code receives lists (as in the module's
  own demo) and builds tuples itself; a tuple cannot be assigned to by index, so the kind
  of the sequence is part of the value.
\<close>

datatype seq_kind = PyList | PyTuple

type_synonym pyseq = "seq_kind \<times> real list"

definition truthy :: "pyseq option \<Rightarrow> bool" where
  \<comment> \<open>\<open>if s:\<close> for \<open>None\<close> or a sequence: false for \<open>None\<close> and for an empty sequence.\<close>
  "truthy s = (case s of None \<Rightarrow> False | Some q \<Rightarrow> snd q \<noteq> [])"

definition getitem :: "pyseq \<Rightarrow> nat \<Rightarrow> error + real" where
  "getitem s i = (if i < length (snd s) then Inr (snd s ! i) else Inl IndexError)"

definition setitem :: "pyseq \<Rightarrow> nat \<Rightarrow> real \<Rightarrow> error + pyseq" where
  "setitem s i v =
     (case fst s of
        PyTuple \<Rightarrow> Inl TypeError
      | PyList \<Rightarrow> if i < length (snd s) then Inr (PyList, (snd s)[i := v]) else Inl IndexError)"

definition isub_item :: "pyseq \<Rightarrow> nat \<Rightarrow> real \<Rightarrow> error + pyseq" where
  \<comment> \<open>\<open>s[i] -= v\<close>: read the item, then store the difference.\<close>
  "isub_item s i v = ebind (getitem s i) (\<lambda>x. setitem s i (x - v))"

definition iadd_item :: "pyseq \<Rightarrow> nat \<Rightarrow> real \<Rightarrow> error + pyseq" where
  \<comment> \<open>\<open>s[i] += v\<close>\<close>
  "iadd_item s i v = ebind (getitem s i) (\<lambda>x. setitem s i (x + v))"

definition py_min :: "real list \<Rightarrow> error + real" where
  \<comment> \<open>\<open>min(xs)\<close>: ValueError on an empty sequence.\<close>
  "py_min xs = (case xs of [] \<Rightarrow> Inl ValueError | x # ys \<Rightarrow> Inr (fold min ys x))"

definition py_max :: "real list \<Rightarrow> error + real" where
  "py_max xs = (case xs of [] \<Rightarrow> Inl ValueError | x # ys \<Rightarrow> Inr (fold max ys x))"

section \<open>plotting/map\_cross\_section.py: class MapCrossSection\<close>

text \<open>
  The fields of a \<open>MapCrossSection\<close> object that the extent and layout code reads or
  writes. The matplotlib axes objects are not modelled.
\<close>

record mcs =
  map_extent :: pyseq
  depth_extent :: pyseq
  pad_left :: real
  pad_right :: real
  pad_top :: real
  pad_bottom :: real
  coastlines :: "string option"

definition km_per_deg_lat :: real where
  "km_per_deg_lat = 1.852 * 60"

definition radians :: "real \<Rightarrow> real" where
  "radians d = d * pi / 180"

text \<open>
  The properties read \<open>map_extent[0..3]\<close> and \<open>depth_extent[0..1]\<close>. An object built by
  the constructor has a map extent of four items and a depth extent of at least two
  (lemmas \<open>get_map_extent_length\<close> and \<open>get_depth_extent_length\<close> below), so these
  reads are in range there.
\<close>

definition lat_min :: "mcs \<Rightarrow> real" where
  "lat_min self = snd (map_extent self) ! 2"

definition lat_max :: "mcs \<Rightarrow> real" where
  "lat_max self = snd (map_extent self) ! 3"

definition lon_min :: "mcs \<Rightarrow> real" where
  "lon_min self = snd (map_extent self) ! 0"

definition lon_max :: "mcs \<Rightarrow> real" where
  "lon_max self = snd (map_extent self) ! 1"

definition depth_min :: "mcs \<Rightarrow> real" where
  "depth_min self = snd (depth_extent self) ! 0"

definition depth_max :: "mcs \<Rightarrow> real" where
  "depth_max self = snd (depth_extent self) ! 1"

definition km_per_deg_lon :: "mcs \<Rightarrow> real" where
  "km_per_deg_lon self = km_per_deg_lat * cos (radians ((lat_min self + lat_max self) / 2))"

definition lonrange :: "mcs \<Rightarrow> real" where
  "lonrange self = lon_max self - lon_min self"

definition latrange :: "mcs \<Rightarrow> real" where
  "latrange self = lat_max self - lat_min self"

definition depthrange :: "mcs \<Rightarrow> real" where
  "depthrange self = snd (depth_extent self) ! 1 - snd (depth_extent self) ! 0"

definition lonrange_km :: "mcs \<Rightarrow> real" where
  "lonrange_km self = lonrange self * km_per_deg_lon self"

definition latrange_km :: "mcs \<Rightarrow> real" where
  "latrange_km self = latrange self * km_per_deg_lat"

definition xrange_km :: "mcs \<Rightarrow> real" where
  "xrange_km self = lonrange_km self + depthrange self"

definition yrange_km :: "mcs \<Rightarrow> real" where
  "yrange_km self = latrange_km self + depthrange self"

definition plot_aspect :: "mcs \<Rightarrow> real" where
  "plot_aspect self = xrange_km self / yrange_km self"

subsection \<open>Extents\<close>

definition check_map_extent :: "pyseq \<Rightarrow> error + pyseq" where
  \<comment> \<open>The branch \<open>if map_extent:\<close> of \<open>_get_map_extent\<close>: three assertions, then the
      object itself is returned.\<close>
  "check_map_extent s =
     (if length (snd s) \<noteq> 4 then Inl AssertionError
      else if \<not> (snd s ! 1 > snd s ! 0) then Inl AssertionError
      else if \<not> (snd s ! 3 > snd s ! 2) then Inl AssertionError
      else Inr s)"

definition samples_map_extent ::
  "real list option \<Rightarrow> real list option \<Rightarrow> real \<Rightarrow> error + pyseq" where
  \<comment> \<open>The \<open>else\<close> branch of \<open>_get_map_extent\<close>. The result is a tuple.\<close>
  "samples_map_extent latitudes longitudes extent_buffer =
     (case (latitudes, longitudes) of
        (Some lats, Some lons) \<Rightarrow>
          ebind (py_min lons) (\<lambda>lon_min0.
          ebind (py_max lons) (\<lambda>lon_max0.
          ebind (py_min lats) (\<lambda>lat_min0.
          ebind (py_max lats) (\<lambda>lat_max0.
            (let lon_buffer = (lon_max0 - lon_min0) * extent_buffer;
                 lat_buffer = (lat_max0 - lat_min0) * extent_buffer
             in Inr (PyTuple, [lon_min0 - lon_buffer, lon_max0 + lon_buffer,
                               lat_min0 - lat_buffer, lat_max0 + lat_buffer]))))))
      | _ \<Rightarrow> Inl AssertionError)"

definition get_map_extent ::
  "pyseq option \<Rightarrow> real list option \<Rightarrow> real list option \<Rightarrow> real \<Rightarrow> error + pyseq" where
  "get_map_extent map_extent_arg latitudes longitudes extent_buffer =
     (case map_extent_arg of
        None \<Rightarrow> samples_map_extent latitudes longitudes extent_buffer
      | Some s \<Rightarrow>
          if snd s \<noteq> [] then check_map_extent s
          else samples_map_extent latitudes longitudes extent_buffer)"

definition check_depth_extent :: "pyseq \<Rightarrow> error + pyseq" where
  \<comment> \<open>\<open>assert depth_extent[1] > depth_extent[0]\<close>; item 1 is read first.\<close>
  "check_depth_extent s =
     ebind (getitem s 1) (\<lambda>z1.
     ebind (getitem s 0) (\<lambda>z0.
       if z1 > z0 then Inr s else Inl AssertionError))"

definition samples_depth_extent :: "real list option \<Rightarrow> real \<Rightarrow> error + pyseq" where
  "samples_depth_extent depths extent_buffer =
     (case depths of
        None \<Rightarrow> Inl AssertionError
      | Some ds \<Rightarrow>
          ebind (py_min ds) (\<lambda>depth_min0.
          ebind (py_max ds) (\<lambda>depth_max0.
            (let depth_buffer = (depth_max0 - depth_min0) * extent_buffer
             in Inr (PyTuple, [depth_min0 - depth_buffer, depth_max0 + depth_buffer])))))"

definition get_depth_extent :: "pyseq option \<Rightarrow> real list option \<Rightarrow> real \<Rightarrow> error + pyseq" where
  "get_depth_extent depth_extent_arg depths extent_buffer =
     (case depth_extent_arg of
        None \<Rightarrow> samples_depth_extent depths extent_buffer
      | Some s \<Rightarrow>
          if snd s \<noteq> [] then check_depth_extent s
          else samples_depth_extent depths extent_buffer)"

subsection \<open>Panel layout\<close>

definition adjustminmax :: "real \<Rightarrow> mcs \<Rightarrow> error + mcs" where
  \<comment> \<open>\<open>_adjustminmax\<close> assigns to items of \<open>self.map_extent\<close> in place.\<close>
  "adjustminmax fig_aspect self =
     (if fig_aspect > plot_aspect self then
        (let add_kms = ((yrange_km self * fig_aspect) - xrange_km self) / 2;
             add_deg = add_kms / km_per_deg_lon self
         in ebind (isub_item (map_extent self) 0 add_deg) (\<lambda>m1.
            ebind (iadd_item m1 1 add_deg) (\<lambda>m2.
              Inr (self\<lparr>map_extent := m2\<rparr>))))
      else
        (let add_kms = ((xrange_km self / fig_aspect) - yrange_km self) / 2;
             add_deg = add_kms / km_per_deg_lat
         in ebind (isub_item (map_extent self) 2 add_deg) (\<lambda>m1.
            ebind (iadd_item m1 3 add_deg) (\<lambda>m2.
              Inr (self\<lparr>map_extent := m2\<rparr>)))))"

record rect =
  rect_left :: real
  rect_bottom :: real
  rect_width :: real
  rect_height :: real

text \<open>
  \<open>_make_rects\<close> in its three steps. The figure is given by its size in inches,
  \<open>fig_inches = (fig_inches_x, fig_inches_y)\<close>, as \<open>fig.get_size_inches()\<close> returns it.
\<close>

definition fig_xrange :: "mcs \<Rightarrow> real \<times> real \<Rightarrow> real" where
  "fig_xrange self fig_inches = fst fig_inches - pad_left self - pad_right self"

definition fig_yrange :: "mcs \<Rightarrow> real \<times> real \<Rightarrow> real" where
  "fig_yrange self fig_inches = snd fig_inches - pad_top self - pad_bottom self"

definition fig_aspect :: "mcs \<Rightarrow> real \<times> real \<Rightarrow> real" where
  "fig_aspect self fig_inches = fig_xrange self fig_inches / fig_yrange self fig_inches"

definition expand_to_fill :: "mcs \<Rightarrow> real \<times> real \<Rightarrow> bool \<Rightarrow> error + mcs" where
  \<comment> \<open>\<open>if fill_figure: self._adjustminmax(fig_aspect)\<close>\<close>
  "expand_to_fill self fig_inches fill_figure =
     (if fill_figure then adjustminmax (fig_aspect self fig_inches) self else Inr self)"

definition scale_factors :: "mcs \<Rightarrow> real \<times> real \<Rightarrow> real \<times> real" where
  \<comment> \<open>\<open>(inch_per_km_x, inch_per_km_y)\<close> after the adjustment of the looser one.\<close>
  "scale_factors self fig_inches =
     (let inch_per_km_x = fig_xrange self fig_inches / xrange_km self;
          inch_per_km_y = fig_yrange self fig_inches / yrange_km self
      in if plot_aspect self > fig_aspect self fig_inches then
           (inch_per_km_x, inch_per_km_y * (fig_aspect self fig_inches / plot_aspect self))
         else if plot_aspect self < fig_aspect self fig_inches then
           (inch_per_km_x * (plot_aspect self / fig_aspect self fig_inches), inch_per_km_y)
         else (inch_per_km_x, inch_per_km_y))"

definition axes_rects :: "mcs \<Rightarrow> real \<times> real \<Rightarrow> real \<times> real \<Rightarrow> rect \<times> rect \<times> rect" where
  \<comment> \<open>\<open>(rect_map, rect_xz, rect_zy)\<close> from the two scale factors.\<close>
  "axes_rects self fig_inches inch_per_km =
     (let left_width = lonrange_km self * fst inch_per_km / fst fig_inches;
          right_width = depthrange self * fst inch_per_km / fst fig_inches;
          lower_height = depthrange self * snd inch_per_km / snd fig_inches;
          upper_height = latrange_km self * snd inch_per_km / snd fig_inches;
          left_left = pad_left self / fst fig_inches;
          right_left = left_left + left_width;
          lower_bottom = pad_bottom self / snd fig_inches;
          upper_bottom = lower_bottom + lower_height
      in (\<lparr>rect_left = left_left, rect_bottom = upper_bottom,
            rect_width = left_width, rect_height = upper_height\<rparr>,
          \<lparr>rect_left = left_left, rect_bottom = lower_bottom,
            rect_width = left_width, rect_height = lower_height\<rparr>,
          \<lparr>rect_left = right_left, rect_bottom = upper_bottom,
            rect_width = right_width, rect_height = upper_height\<rparr>))"

definition make_rects ::
  "mcs \<Rightarrow> real \<times> real \<Rightarrow> bool \<Rightarrow> error + ((rect \<times> rect \<times> rect) \<times> mcs)" where
  \<comment> \<open>Returns the three rectangles and the object, whose map extent may have been
      expanded.\<close>
  "make_rects self fig_inches fill_figure =
     ebind (expand_to_fill self fig_inches fill_figure) (\<lambda>self'.
       Inr (axes_rects self' fig_inches (scale_factors self' fig_inches), self'))"

definition NE_coast_resolutions :: "string list" where
  "NE_coast_resolutions = [''10m'', ''50m'', ''110m'']"

definition GSHSS_coast_resolutions :: "string list" where
  "GSHSS_coast_resolutions = [''auto'', ''coarse'', ''low'', ''intermediate'', ''high'', ''full'']"

record mcs_args =
  arg_fill_figure :: bool
  arg_pad_left :: real
  arg_pad_right :: real
  arg_pad_top :: real
  arg_pad_bottom :: real
  arg_map_extent :: "pyseq option"
  arg_depth_extent :: "pyseq option"
  arg_extent_buffer :: real
  arg_latitudes :: "real list option"
  arg_longitudes :: "real list option"
  arg_depths :: "real list option"
  arg_coastlines :: "string option"

definition default_args :: mcs_args where
  \<comment> \<open>The defaults of \<open>MapCrossSection.__init__\<close>.\<close>
  "default_args =
     \<lparr>arg_fill_figure = True, arg_pad_left = 0.6, arg_pad_right = 0.6, arg_pad_top = 0.4,
      arg_pad_bottom = 0.4, arg_map_extent = None, arg_depth_extent = None,
      arg_extent_buffer = 0.2, arg_latitudes = None, arg_longitudes = None,
      arg_depths = None, arg_coastlines = None\<rparr>"

definition MapCrossSection ::
  "real \<times> real \<Rightarrow> mcs_args \<Rightarrow> error + (mcs \<times> rect \<times> rect \<times> rect)" where
  \<comment> \<open>\<open>__init__\<close> up to the creation of the axes: the object and the rectangles the three
      axes are created with. \<open>fig_inches\<close> is the size of the figure \<open>plt.figure\<close> returns.\<close>
  "MapCrossSection fig_inches a =
     ebind (get_map_extent (arg_map_extent a) (arg_latitudes a) (arg_longitudes a)
              (arg_extent_buffer a)) (\<lambda>me.
     ebind (get_depth_extent (arg_depth_extent a) (arg_depths a) (arg_extent_buffer a)) (\<lambda>de.
     ebind (make_rects
              \<lparr>map_extent = me, depth_extent = de, pad_left = arg_pad_left a,
               pad_right = arg_pad_right a, pad_top = arg_pad_top a,
               pad_bottom = arg_pad_bottom a,
               coastlines =
                 (case arg_coastlines a of
                    None \<Rightarrow> None
                  | Some c \<Rightarrow>
                      (if c \<in> set NE_coast_resolutions \<or> c \<in> set GSHSS_coast_resolutions
                       then Some c else None))\<rparr>
              fig_inches (arg_fill_figure a)) (\<lambda>(rs, self').
       Inr (self', rs))))"

subsection \<open>Valid inputs of the layout\<close>

text \<open>
  A valid map extent has its bounds in order and latitudes that exist (between -90 and 90
  degrees); a valid depth extent has its bounds in order; a valid figure leaves a positive
  usable width and height after the (non-negative) paddings are taken off.
\<close>

definition valid_map_extent :: "pyseq \<Rightarrow> bool" where
  "valid_map_extent s \<longleftrightarrow>
     length (snd s) = 4 \<and> snd s ! 0 < snd s ! 1 \<and> snd s ! 2 < snd s ! 3
     \<and> - 90 \<le> snd s ! 2 \<and> snd s ! 3 \<le> 90"

definition valid_depth_extent :: "pyseq \<Rightarrow> bool" where
  "valid_depth_extent s \<longleftrightarrow> 2 \<le> length (snd s) \<and> snd s ! 0 < snd s ! 1"

definition valid_layout :: "mcs \<Rightarrow> real \<times> real \<Rightarrow> bool" where
  "valid_layout self fig_inches \<longleftrightarrow>
     valid_map_extent (map_extent self) \<and> valid_depth_extent (depth_extent self)
     \<and> 0 \<le> pad_left self \<and> 0 \<le> pad_right self \<and> 0 \<le> pad_top self \<and> 0 \<le> pad_bottom self
     \<and> 0 < fig_xrange self fig_inches \<and> 0 < fig_yrange self fig_inches"

text \<open>Two rectangles overlap when their interiors meet.\<close>

definition overlap :: "rect \<Rightarrow> rect \<Rightarrow> bool" where
  "overlap r1 r2 \<longleftrightarrow>
     rect_left r1 < rect_left r2 + rect_width r2 \<and> rect_left r2 < rect_left r1 + rect_width r1
     \<and> rect_bottom r1 < rect_bottom r2 + rect_height r2
     \<and> rect_bottom r2 < rect_bottom r1 + rect_height r1"

section \<open>plotting/shape\_selection.py\<close>

text \<open>
  \<open>Circle.__init__\<close> stores its three arguments as they are; the record is polymorphic
  in the type of the stored values because the constructor does not look at them.
\<close>

record 'v circle =
  longitude :: 'v
  latitude :: 'v
  radius :: 'v

definition Circle_init :: "'v \<Rightarrow> 'v \<Rightarrow> 'v \<Rightarrow> 'v circle" where
  "Circle_init lon lat r = \<lparr>longitude = lon, latitude = lat, radius = r\<rparr>"

definition Circle_call :: "'v list \<Rightarrow> error + 'v circle" where
  \<comment> \<open>A call of \<open>Circle\<close> with the positional arguments \<open>args\<close>:
      \<open>__init__(self, longitude, latitude, radius)\<close> takes exactly three; any other
      number is a TypeError.\<close>
  "Circle_call args =
     (case args of
        [lon, lat, r] \<Rightarrow> Inr (Circle_init lon lat r)
      | _ \<Rightarrow> Inl TypeError)"

definition Circle_contains ::
  "(real \<Rightarrow> real \<Rightarrow> real \<Rightarrow> real \<Rightarrow> real) \<Rightarrow> real circle \<Rightarrow> real \<Rightarrow> real \<Rightarrow> bool" where
  \<comment> \<open>\<open>gps2dist lat1 lon1 lat2 lon2\<close> stands for \<open>gps2dist_azimuth(lat1, lon1, lat2, lon2)[0]\<close>
      of obspy, the geodesic distance in metres; it is a parameter.\<close>
  "Circle_contains gps2dist self event_longitude event_latitude =
     (let dist = gps2dist event_latitude event_longitude (latitude self) (longitude self)
      in dist / (1852 * 60) \<le> radius self)"

record polygon_shape =
  polygon :: "real list list"

definition Polygon_init :: "real list list \<Rightarrow> polygon_shape" where
  "Polygon_init p = \<lparr>polygon = p\<rparr>"

definition Polygon_call :: "real list list list \<Rightarrow> error + polygon_shape" where
  \<comment> \<open>A call of \<open>Polygon\<close> with the positional arguments \<open>args\<close>: it takes one.\<close>
  "Polygon_call args = (case args of [p] \<Rightarrow> Inr (Polygon_init p) | _ \<Rightarrow> Inl TypeError)"

section \<open>hypodd\_plotter.py\<close>

subsection \<open>Strings\<close>

text \<open>Strings are lists of 8-bit characters; the model covers ASCII text.\<close>

definition upper_char :: "char \<Rightarrow> char" where
  "upper_char c =
     (case map_of (zip ''abcdefghijklmnopqrstuvwxyz'' ''ABCDEFGHIJKLMNOPQRSTUVWXYZ'') c of
        Some u \<Rightarrow> u | None \<Rightarrow> c)"

definition upper :: "string \<Rightarrow> string" where
  "upper s = map upper_char s"

fun contains_str :: "string \<Rightarrow> string \<Rightarrow> bool" where
  \<comment> \<open>\<open>p in s\<close>\<close>
  "contains_str p [] = (p = [])"
| "contains_str p (c # cs) = (take (length p) (c # cs) = p \<or> contains_str p cs)"

definition after_last_colon :: "string \<Rightarrow> string" where
  \<comment> \<open>\<open>s.split(":")[-1]\<close>\<close>
  "after_last_colon s = rev (takeWhile (\<lambda>c. c \<noteq> CHR '':'') (rev s))"

definition is_space :: "char \<Rightarrow> bool" where
  \<comment> \<open>The characters that \<open>int()\<close> skips before and after an ASCII literal: space, tab,
      line feed, vertical tab, form feed, carriage return.\<close>
  "is_space c \<longleftrightarrow>
     c \<in> set [CHR '' '', CHR 0x09, CHR 0x0A, CHR 0x0B, CHR 0x0C, CHR 0x0D]"

definition trim_space :: "string \<Rightarrow> string" where
  "trim_space s = rev (dropWhile is_space (rev (dropWhile is_space s)))"

definition digit_val :: "char \<Rightarrow> int option" where
  "digit_val c = map_of (zip ''0123456789'' [0, 1, 2, 3, 4, 5, 6, 7, 8, 9]) c"

fun digits_from :: "int \<Rightarrow> string \<Rightarrow> int option" where
  \<comment> \<open>The rest of a decimal literal: digits, with single underscores between digits.\<close>
  "digits_from acc [] = Some acc"
| "digits_from acc (c # cs) =
     (if c = CHR ''_'' then
        (case cs of
           [] \<Rightarrow> None
         | d # ds \<Rightarrow> (if digit_val d = None then None else digits_from acc cs))
      else
        (case digit_val c of
           None \<Rightarrow> None
         | Some v \<Rightarrow> digits_from (10 * acc + v) cs))"

definition int_max_str_digits :: nat where
  \<comment> \<open>The interpreter's default limit on the number of digits of a decimal literal
      that \<open>int()\<close> converts.\<close>
  "int_max_str_digits = 4300"

definition parse_digits :: "string \<Rightarrow> int option" where
  "parse_digits s =
     (case s of
        [] \<Rightarrow> None
      | c # cs \<Rightarrow>
          (case digit_val c of
             None \<Rightarrow> None
           | Some v \<Rightarrow>
               (if length (filter (\<lambda>d. d \<noteq> CHR ''_'') s) > int_max_str_digits then None
                else digits_from v cs)))"

definition py_int :: "string \<Rightarrow> error + int" where
  \<comment> \<open>\<open>int(s)\<close> for an ASCII string: surrounding whitespace, an optional sign directly
      before the digits, decimal digits with single underscores between them; anything
      else, and more digits than the limit, is a ValueError.\<close>
  "py_int s =
     (let t = trim_space s;
          r = (case t of
                 [] \<Rightarrow> None
               | c # cs \<Rightarrow>
                   (if c = CHR ''-'' then map_option uminus (parse_digits cs)
                    else if c = CHR ''+'' then parse_digits cs
                    else parse_digits t))
      in case r of None \<Rightarrow> Inl ValueError | Some n \<Rightarrow> Inr n)"

subsection \<open>The catalog\<close>

text \<open>
  What the plotter reads of an obspy catalog: per event its origins (latitude, longitude,
  depth in metres, the method id as a string or \<open>None\<close>, the texts of the comments)
  and the values \<open>mag\<close> of its magnitudes.
\<close>

record origin =
  o_latitude :: real
  o_longitude :: real
  o_depth :: real
  method_id :: "string option"
  comments :: "string option list"

record event =
  origins :: "origin list"
  magnitudes :: "real list"

record positions =
  latitudes :: "real list"
  longitudes :: "real list"
  depths :: "real list"

definition first_item :: "'a list \<Rightarrow> error + 'a" where
  \<comment> \<open>\<open>xs[0]\<close>\<close>
  "first_item xs = (case xs of [] \<Rightarrow> Inl IndexError | x # _ \<Rightarrow> Inr x)"

definition last_item :: "'a list \<Rightarrow> error + 'a" where
  \<comment> \<open>\<open>xs[-1]\<close>\<close>
  "last_item xs = (if xs = [] then Inl IndexError else Inr (last xs))"

subsection \<open>Colours\<close>

text \<open>
  \<open>ColorInvalid\<close> is \<open>color_invalid\<close>, the RGBA value of "grey". \<open>Palette j\<close>, for
  \<open>j\<close> from 0 to 11, is entry \<open>j\<close> of the table of \<open>get_cmap("Paired", 12)\<close>: the twelve
  colours of the palette "Paired", which differ from one another and from grey.
\<close>

datatype color = ColorInvalid | Palette nat

definition cmap :: "int \<Rightarrow> color" where
  \<comment> \<open>The colormap called with an integer, as matplotlib's \<open>Colormap.__call__\<close> does it:
      an index within the table gives that entry, an index below 0 the "under" colour and
      one above 11 the "over" colour, which are the first and the last entry of the table
      (nothing in the code sets them otherwise).\<close>
  "cmap i = Palette (if i < 0 then 0 else if i > 11 then 11 else nat i)"

definition is_hypodd :: "string option \<Rightarrow> bool" where
  \<comment> \<open>The negation of
      \<open>method_id is None or "HYPODD" not in str(method_id).upper()\<close>.\<close>
  "is_hypodd m = (case m of None \<Rightarrow> False | Some s \<Rightarrow> contains_str ''HYPODD'' (upper s))"

definition is_cluster_comment :: "string option \<Rightarrow> bool" where
  \<comment> \<open>\<open>comment and "HypoDD cluster id" in comment\<close>\<close>
  "is_cluster_comment c =
     (case c of None \<Rightarrow> False | Some t \<Rightarrow> t \<noteq> [] \<and> contains_str ''HypoDD cluster id'' t)"

fun find_cluster_id :: "string option list \<Rightarrow> error + int" where
  \<comment> \<open>The \<open>for ... else\<close> loop over the comments: the first cluster comment is parsed
      (and the loop left); without one the cluster id is 0.\<close>
  "find_cluster_id [] = Inr 0"
| "find_cluster_id (None # cs) = find_cluster_id cs"
| "find_cluster_id (Some t # cs) =
     (if t \<noteq> [] \<and> contains_str ''HypoDD cluster id'' t then py_int (after_last_colon t)
      else find_cluster_id cs)"

definition event_color :: "origin \<Rightarrow> error + color" where
  \<comment> \<open>The colour appended to \<open>self.colors\<close> for an event with last origin \<open>org\<close>.\<close>
  "event_color org =
     (if \<not> is_hypodd (method_id org) then Inr ColorInvalid
      else ebind (find_cluster_id (comments org)) (\<lambda>cluster_id. Inr (cmap cluster_id)))"

subsection \<open>class HypoDDPlotter\<close>

text \<open>
  A figure as far as it is modelled: the extents and the three axes rectangles of the
  \<open>MapCrossSection\<close> it is drawn with, and the positions drawn into it.
\<close>

record figure =
  fig_map_extent :: pyseq
  fig_depth_extent :: pyseq
  fig_rects :: "rect \<times> rect \<times> rect"
  fig_positions :: positions

text \<open>
  The plotter object, together with the list of the files that \<open>plt.savefig\<close> has
  written so far (name and figure, oldest first); a file is listed once \<open>savefig\<close> has
  returned.
\<close>

record plotter =
  cat :: "event list"
  p_map_extent :: "pyseq option"
  p_depth_extent :: "pyseq option"
  p_coastlines :: "string option"
  file_base :: string
  original_filename :: string
  relocated_filename :: string
  colors :: "color list"
  p_magnitudes :: "real list"
  inshape :: "bool list"
  marker_size :: real
  saved :: "(string \<times> figure) list"

definition HypoDDPlotter :: "event list \<Rightarrow> pyseq option \<Rightarrow> pyseq option \<Rightarrow> plotter" where
  \<comment> \<open>\<open>__init__\<close>: the argument \<open>coastlines\<close> is not stored. The lists and the marker
      size are set later; the flags \<open>quiet\<close> and \<open>replace_scatter_with_plot\<close> only choose
      between drawing calls and are left out. Nothing has been saved yet.\<close>
  "HypoDDPlotter c me de =
     \<lparr>cat = c, p_map_extent = me, p_depth_extent = de, p_coastlines = None,
      file_base = ''hypoDDpy'', original_filename = [], relocated_filename = [],
      colors = [], p_magnitudes = [], inshape = [], marker_size = 1, saved = []\<rparr>"

fun extract_positions :: "event list \<Rightarrow> error + (positions \<times> positions)" where
  \<comment> \<open>\<open>_extract_positions\<close>: first and last origin of each event, depths in km.\<close>
  "extract_positions [] =
     Inr (\<lparr>latitudes = [], longitudes = [], depths = []\<rparr>,
          \<lparr>latitudes = [], longitudes = [], depths = []\<rparr>)"
| "extract_positions (ev # evs) =
     ebind (first_item (origins ev)) (\<lambda>o0.
     ebind (last_item (origins ev)) (\<lambda>o1.
     ebind (extract_positions evs) (\<lambda>(orig, reloc).
       Inr (\<lparr>latitudes = o_latitude o0 # latitudes orig,
             longitudes = o_longitude o0 # longitudes orig,
             depths = (o_depth o0 / 1000) # depths orig\<rparr>,
            \<lparr>latitudes = o_latitude o1 # latitudes reloc,
             longitudes = o_longitude o1 # longitudes reloc,
             depths = (o_depth o1 / 1000) # depths reloc\<rparr>))))"

fun set_plot_loop ::
  "('s \<Rightarrow> real \<Rightarrow> real \<Rightarrow> bool) \<Rightarrow> 's option \<Rightarrow> event list \<Rightarrow> plotter \<Rightarrow> (error + unit) \<times> plotter"
  where
  \<comment> \<open>The loop of \<open>_set_plot_params\<close>. \<open>contains\<close> is the method \<open>contains\<close> of the shape.
      An exception leaves the lists as far as they were filled.\<close>
  "set_plot_loop contains shape [] self = (Inr (), self)"
| "set_plot_loop contains shape (ev # evs) self =
     (case first_item (magnitudes ev) of
        Inl e \<Rightarrow> (Inl e, self)
      | Inr mag \<Rightarrow>
         (case last_item (origins ev) of
            Inl e \<Rightarrow> (Inl e, self\<lparr>p_magnitudes := p_magnitudes self @ [mag]\<rparr>)
          | Inr o1 \<Rightarrow>
             (case event_color o1 of
                Inl e \<Rightarrow> (Inl e, self\<lparr>p_magnitudes := p_magnitudes self @ [mag]\<rparr>)
              | Inr col \<Rightarrow>
                  set_plot_loop contains shape evs
                    (self\<lparr>p_magnitudes := p_magnitudes self @ [mag],
                          colors := colors self @ [col],
                          inshape := inshape self @
                            [case shape of
                               None \<Rightarrow> True
                             | Some sh \<Rightarrow> contains sh (o_longitude o1) (o_latitude o1)]\<rparr>))))"

definition set_plot_params ::
  "('s \<Rightarrow> real \<Rightarrow> real \<Rightarrow> bool) \<Rightarrow> 's option \<Rightarrow> plotter \<Rightarrow> (error + unit) \<times> plotter" where
  "set_plot_params contains shape self =
     set_plot_loop contains shape (cat self)
       (self\<lparr>colors := [], p_magnitudes := [], inshape := []\<rparr>)"

text \<open>
  The calls into matplotlib and cartopy are parameters. \<open>draw lib shape self pos fig\<close> is
  the outcome of creating the three axes with finite rectangles and of all the drawing of
  \<open>_plot_events\<close> into them (\<open>None\<close> when nothing is raised); \<open>savefig lib name fig\<close> is
  the outcome of \<open>plt.savefig(name)\<close> for the figure.
\<close>

record 's backend =
  draw :: "'s option \<Rightarrow> plotter \<Rightarrow> positions \<Rightarrow> figure \<Rightarrow> error option"
  savefig :: "string \<Rightarrow> figure \<Rightarrow> error option"

definition default_fig_inches :: "real \<times> real" where
  \<comment> \<open>The size of a new figure under matplotlib's default settings: the plotter passes no
      \<open>figsize\<close>.\<close>
  "default_fig_inches = (6.4, 4.8)"

definition plot_events_inner ::
  "'s backend \<Rightarrow> 's option \<Rightarrow> plotter \<Rightarrow> positions \<Rightarrow> pyseq option \<Rightarrow> pyseq option
     \<Rightarrow> error + (figure \<times> pyseq \<times> pyseq)" where
  \<comment> \<open>\<open>_plot_events\<close>: the figure drawn and the returned pair
      \<open>(mcs.map_extent, mcs.depth_extent)\<close>. With the default figure and paddings the
      layout divides by zero exactly when \<open>xrange_km\<close> or \<open>yrange_km\<close> is 0; the
      rectangles then hold inf or nan, and the first \<open>plt.axes\<close> raises ValueError
      (\<open>Figure.add_axes\<close> refuses a rectangle that is not finite).\<close>
  "plot_events_inner lib shape self pos me de =
     ebind (MapCrossSection default_fig_inches
              (default_args\<lparr>arg_map_extent := me, arg_depth_extent := de,
                 arg_latitudes := Some (latitudes pos), arg_longitudes := Some (longitudes pos),
                 arg_depths := Some (depths pos), arg_fill_figure := False,
                 arg_coastlines := p_coastlines self\<rparr>)) (\<lambda>(m, rs).
       if xrange_km m = 0 \<or> yrange_km m = 0 then Inl ValueError
       else
         (case draw lib shape self pos
                 \<lparr>fig_map_extent = map_extent m, fig_depth_extent = depth_extent m,
                  fig_rects = rs, fig_positions = pos\<rparr> of
            Some e \<Rightarrow> Inl e
          | None \<Rightarrow>
              Inr (\<lparr>fig_map_extent = map_extent m, fig_depth_extent = depth_extent m,
                    fig_rects = rs, fig_positions = pos\<rparr>,
                   map_extent m, depth_extent m)))"

definition plot_original_relocated ::
  "'s backend \<Rightarrow> ('s \<Rightarrow> real \<Rightarrow> real \<Rightarrow> bool) \<Rightarrow> 's option \<Rightarrow> real \<Rightarrow> plotter
     \<Rightarrow> (error + unit) \<times> plotter" where
  \<comment> \<open>\<open>_plot_original_relocated\<close>\<close>
  "plot_original_relocated lib contains shape msize self0 =
     (let self1 = self0\<lparr>original_filename := file_base self0 @ ''_original.pdf'',
                         relocated_filename := file_base self0 @ ''_relocated.pdf''\<rparr>
      in case extract_positions (cat self1) of
           Inl e \<Rightarrow> (Inl e, self1)
         | Inr (original_pos, relocated_pos) \<Rightarrow>
            (case set_plot_params contains shape self1 of
               (Inl e, self2) \<Rightarrow> (Inl e, self2)
             | (Inr u, self2) \<Rightarrow>
                (case plot_events_inner lib shape (self2\<lparr>marker_size := msize\<rparr>) original_pos
                        (p_map_extent self2) (p_depth_extent self2) of
                   Inl e \<Rightarrow> (Inl e, self2\<lparr>marker_size := msize\<rparr>)
                 | Inr (fig1, me, de) \<Rightarrow>
                    (case savefig lib (original_filename self2) fig1 of
                       Some e \<Rightarrow> (Inl e, self2\<lparr>marker_size := msize\<rparr>)
                     | None \<Rightarrow>
                        (case plot_events_inner lib shape (self2\<lparr>marker_size := msize\<rparr>)
                                relocated_pos (Some me) (Some de) of
                           Inl e \<Rightarrow>
                             (Inl e, self2\<lparr>marker_size := msize,
                                           saved := saved self2 @
                                             [(original_filename self2, fig1)]\<rparr>)
                         | Inr (fig2, me2, de2) \<Rightarrow>
                            (case savefig lib (relocated_filename self2) fig2 of
                               Some e \<Rightarrow>
                                 (Inl e, self2\<lparr>marker_size := msize,
                                               saved := saved self2 @
                                                 [(original_filename self2, fig1)]\<rparr>)
                             | None \<Rightarrow>
                                 (Inr (), self2\<lparr>marker_size := msize,
                                                saved := saved self2 @
                                                  [(original_filename self2, fig1),
                                                   (relocated_filename self2, fig2)]\<rparr>)))))))"

definition plot_events ::
  "(real list circle + polygon_shape) backend
     \<Rightarrow> ((real list circle + polygon_shape) \<Rightarrow> real \<Rightarrow> real \<Rightarrow> bool) \<Rightarrow> plotter
     \<Rightarrow> string \<Rightarrow> real list option \<Rightarrow> real list list option \<Rightarrow> string option
     \<Rightarrow> (error + (string \<times> string)) \<times> plotter" where
  \<comment> \<open>\<open>plot_events(file_base, circle, polygon, coastlines)\<close>. The shape is a Circle
      (left) or a Polygon (right); \<open>Circle\<close> is called with the list \<open>circle\<close> as its only
      argument.\<close>
  "plot_events lib contains self0 file_base_arg circle_arg polygon_arg coastlines_arg =
     (let self1 = (case coastlines_arg of
                     None \<Rightarrow> self0
                   | Some c \<Rightarrow> (if c \<noteq> [] then self0\<lparr>p_coastlines := Some c\<rparr> else self0));
          self2 = (if file_base_arg \<noteq> [] then self1\<lparr>file_base := file_base_arg\<rparr> else self1)
      in case (case circle_arg of
                 None \<Rightarrow> Inr None
               | Some c \<Rightarrow>
                   (if c \<noteq> [] then ebind (Circle_call [c]) (\<lambda>sh. Inr (Some (Inl sh)))
                    else Inr None)) of
           Inl e \<Rightarrow> (Inl e, self2)
         | Inr shape1 \<Rightarrow>
            (case (case polygon_arg of
                     None \<Rightarrow> Inr shape1
                   | Some p \<Rightarrow>
                       (if p \<noteq> [] then ebind (Polygon_call [p]) (\<lambda>sh. Inr (Some (Inr sh)))
                        else Inr shape1)) of
               Inl e \<Rightarrow> (Inl e, self2)
             | Inr shape2 \<Rightarrow>
                (case plot_original_relocated lib contains shape2 1 self2 of
                   (Inl e, self3) \<Rightarrow> (Inl e, self3)
                 | (Inr u, self3) \<Rightarrow>
                     (Inr (original_filename self3, relocated_filename self3), self3))))"

section \<open>Example inputs\<close>

text \<open>Concrete inputs at which the theorems below are instantiated.\<close>

definition demo_mcs :: mcs where
  "demo_mcs = \<lparr>map_extent = (PyList, [0, 1, -1, 1]), depth_extent = (PyList, [0, 111.12]),
     pad_left = 0.5, pad_right = 0.5, pad_top = 0.5, pad_bottom = 0.5, coastlines = None\<rparr>"

definition demo_expanded :: mcs where
  "demo_expanded = demo_mcs\<lparr>map_extent := (PyList, [-2, 3, -1, 1])\<rparr>"

definition taxicab_dist :: "real \<Rightarrow> real \<Rightarrow> real \<Rightarrow> real \<Rightarrow> real" where
  \<comment> \<open>A computable distance in metres, used only to instantiate the distance parameter
      in an example: 111120 m for each degree of difference.\<close>
  "taxicab_dist lat1 lon1 lat2 lon2 = 111120 * (\<bar>lat1 - lat2\<bar> + \<bar>lon1 - lon2\<bar>)"

definition demo_catalog :: "event list" where
  "demo_catalog =
     [\<lparr>origins = [\<lparr>o_latitude = -12.8, o_longitude = 45.3, o_depth = 10000,
                    method_id = None, comments = []\<rparr>],
       magnitudes = [2.0]\<rparr>,
      \<lparr>origins = [\<lparr>o_latitude = -12.7, o_longitude = 45.4, o_depth = 10000,
                    method_id = None, comments = []\<rparr>],
       magnitudes = [2.5]\<rparr>]"

definition demo_backend :: "(real list circle + polygon_shape) backend" where
  \<comment> \<open>A backend none of whose calls raises.\<close>
  "demo_backend = \<lparr>draw = (\<lambda>shape self pos fig. None), savefig = (\<lambda>name fig. None)\<rparr>"

definition relocated_origin :: "string option list \<Rightarrow> origin" where
  "relocated_origin cs =
     \<lparr>o_latitude = -12.8, o_longitude = 45.3, o_depth = 10000,
      method_id = Some ''HypoDD'', comments = cs\<rparr>"

section \<open>Properties of the extent computation\<close>

lemma ebind_simps [simp]:
  "ebind (Inl e) f = Inl e"
  "ebind (Inr x) f = f x"
  by (simp_all add: ebind_def)

lemma py_min_Min: "xs \<noteq> [] \<Longrightarrow> py_min xs = Inr (Min (set xs))"
proof (cases xs)
  case (Cons a ys)
  then show ?thesis using Min.set_eq_fold [of a ys] by (simp add: py_min_def)
qed simp

lemma py_max_Max: "xs \<noteq> [] \<Longrightarrow> py_max xs = Inr (Max (set xs))"
proof (cases xs)
  case (Cons a ys)
  then show ?thesis using Max.set_eq_fold [of a ys] by (simp add: py_max_def)
qed simp

lemma get_map_extent_falsy:
  "\<not> truthy m \<Longrightarrow> get_map_extent m lats lons b = samples_map_extent lats lons b"
  by (auto simp: truthy_def get_map_extent_def split: option.splits)

lemma get_depth_extent_falsy:
  "\<not> truthy d \<Longrightarrow> get_depth_extent d ds b = samples_depth_extent ds b"
  by (auto simp: truthy_def get_depth_extent_def split: option.splits)

text \<open>
  Claim C4. With no explicit extent (\<open>None\<close> or an empty sequence) and non-empty lists of
  latitudes, longitudes and depths, \<open>_get_map_extent\<close> with buffer 0 returns exactly
  (min lon, max lon, min lat, max lat); with buffer \<open>b\<close> it returns that extent moved
  outward by \<open>b\<close> times the range of the axis at each end; \<open>_get_depth_extent\<close> follows
  the same rule on the depths.
\<close>

theorem extent_from_samples:
  assumes "\<not> truthy m" and "\<not> truthy d"
    and "lats \<noteq> []" and "lons \<noteq> []" and "ds \<noteq> []"
  shows "get_map_extent m (Some lats) (Some lons) 0 =
           Inr (PyTuple, [Min (set lons), Max (set lons), Min (set lats), Max (set lats)])
       \<and> get_map_extent m (Some lats) (Some lons) b =
           Inr (PyTuple,
             [Min (set lons) - b * (Max (set lons) - Min (set lons)),
              Max (set lons) + b * (Max (set lons) - Min (set lons)),
              Min (set lats) - b * (Max (set lats) - Min (set lats)),
              Max (set lats) + b * (Max (set lats) - Min (set lats))])
       \<and> get_depth_extent d (Some ds) 0 = Inr (PyTuple, [Min (set ds), Max (set ds)])
       \<and> get_depth_extent d (Some ds) b =
           Inr (PyTuple,
             [Min (set ds) - b * (Max (set ds) - Min (set ds)),
              Max (set ds) + b * (Max (set ds) - Min (set ds))])"
  using assms
  by (simp add: get_map_extent_falsy get_depth_extent_falsy samples_map_extent_def
      samples_depth_extent_def py_min_Min py_max_Max mult.commute Let_def)

theorem extent_from_samples_witness:
  "\<not> truthy None \<and> \<not> truthy (Some (PyList, []))
   \<and> [-13, -12.5, -12] \<noteq> ([] :: real list) \<and> [45, 46] \<noteq> ([] :: real list)
   \<and> [0, 50] \<noteq> ([] :: real list)
   \<and> get_map_extent None (Some [-13, -12.5, -12]) (Some [45, 46]) 0 =
           Inr (PyTuple, [45, 46, -13, -12])
   \<and> get_map_extent None (Some [-13, -12.5, -12]) (Some [45, 46]) 0.2 =
           Inr (PyTuple, [44.8, 46.2, -13.2, -11.8])
   \<and> get_depth_extent (Some (PyList, [])) (Some [0, 50]) 0.2 = Inr (PyTuple, [-10, 60])"
  using extent_from_samples
    [of None "Some (PyList, [])" "[-13, -12.5, -12]" "[45, 46]" "[0, 50]" "0.2"]
  by (simp add: truthy_def)

lemma get_map_extent_length:
  "get_map_extent a lats lons b = Inr m \<Longrightarrow> length (snd m) = 4"
  by (auto simp: get_map_extent_def check_map_extent_def samples_map_extent_def ebind_def Let_def
      split: option.splits if_splits sum.splits)

lemma get_depth_extent_length:
  "get_depth_extent a ds b = Inr d \<Longrightarrow> 2 \<le> length (snd d)"
  by (auto simp: get_depth_extent_def check_depth_extent_def samples_depth_extent_def ebind_def
      getitem_def Let_def split: option.splits if_splits sum.splits)

lemma check_map_extent_ok:
  "length (snd m) = 4 \<Longrightarrow> snd m ! 0 < snd m ! 1 \<Longrightarrow> snd m ! 2 < snd m ! 3 \<Longrightarrow>
   get_map_extent (Some m) lats lons b = Inr m"
  by (auto simp: get_map_extent_def check_map_extent_def)

lemma check_depth_extent_ok:
  "2 \<le> length (snd d) \<Longrightarrow> snd d ! 0 < snd d ! 1 \<Longrightarrow> get_depth_extent (Some d) ds b = Inr d"
  by (auto simp: get_depth_extent_def check_depth_extent_def getitem_def)

lemma extent_rejections:
  "\<not> truthy m \<Longrightarrow> lats = None \<or> lons = None \<Longrightarrow> get_map_extent m lats lons b = Inl AssertionError"
  "\<not> truthy m \<Longrightarrow> las = [] \<or> los = [] \<Longrightarrow>
     get_map_extent m (Some las) (Some los) b = Inl ValueError"
  "truthy (Some s) \<Longrightarrow> length (snd s) \<noteq> 4 \<or> snd s ! 1 \<le> snd s ! 0 \<or> snd s ! 3 \<le> snd s ! 2 \<Longrightarrow>
     get_map_extent (Some s) lats lons b = Inl AssertionError"
  "\<not> truthy d \<Longrightarrow> get_depth_extent d None b = Inl AssertionError"
  "\<not> truthy d \<Longrightarrow> get_depth_extent d (Some []) b = Inl ValueError"
  "truthy (Some s) \<Longrightarrow> 2 \<le> length (snd s) \<Longrightarrow> snd s ! 1 \<le> snd s ! 0 \<Longrightarrow>
     get_depth_extent (Some s) ds b = Inl AssertionError"
  by (auto simp: get_map_extent_falsy get_depth_extent_falsy samples_map_extent_def
      samples_depth_extent_def py_min_def py_max_def truthy_def get_map_extent_def
      check_map_extent_def get_depth_extent_def check_depth_extent_def getitem_def
      split: option.splits list.splits)

lemma samples_depth_same:
  "get_depth_extent None (Some [10, 10]) 0.2 = Inr (PyTuple, [10, 10])"
  by (simp add: get_depth_extent_def samples_depth_extent_def py_min_def py_max_def)

lemma samples_map_demo:
  "get_map_extent None (Some [-12.8, -12.7]) (Some [45.3, 45.4]) 0.2 =
     Inr (PyTuple, [45.28, 45.42, -12.82, -12.68])"
  by (simp add: get_map_extent_def samples_map_extent_def py_min_def py_max_def)

lemma recheck_depth_same: "get_depth_extent (Some (PyTuple, [10, 10])) ds b = Inl AssertionError"
  by (simp add: get_depth_extent_def check_depth_extent_def getitem_def)


lemma MapCrossSection_no_fill:
  "\<not> arg_fill_figure a \<Longrightarrow>
   get_map_extent (arg_map_extent a) (arg_latitudes a) (arg_longitudes a) (arg_extent_buffer a) = Inr me \<Longrightarrow>
   get_depth_extent (arg_depth_extent a) (arg_depths a) (arg_extent_buffer a) = Inr de \<Longrightarrow>
   map_sum id (\<lambda>r. (map_extent (fst r), depth_extent (fst r))) (MapCrossSection fig a) = Inr (me, de)"
  by (simp add: MapCrossSection_def make_rects_def expand_to_fill_def)

text \<open>
  Claim C5. Extent computation is to fail when no extent and no samples are given, when
  the samples are empty, or when an extent has a zero or negative range, so that every
  extent that reaches the layout has max > min on every axis. The first three hold
  (lemma \<open>extent_rejections\<close>), but only an explicit extent is checked for its range:
  for a catalog whose two events share the depth 10 km the constructor accepts the map
  extent and the depth extent (10, 10) computed from the samples and goes on to the
  layout, although the very same depth extent is rejected when it is passed in
  explicitly.
\<close>

theorem zero_range_sample_extent_accepted:
  "map_sum id (\<lambda>r. (map_extent (fst r), depth_extent (fst r)))
     (MapCrossSection (6.4, 4.8)
        (default_args\<lparr>arg_latitudes := Some [-12.8, -12.7], arg_longitudes := Some [45.3, 45.4],
           arg_depths := Some [10, 10], arg_fill_figure := False\<rparr>))
     = Inr ((PyTuple, [45.28, 45.42, -12.82, -12.68]), (PyTuple, [10, 10]))
   \<and> get_depth_extent (Some (PyTuple, [10, 10])) None 0.2 = Inl AssertionError"
proof -
  have "map_sum id (\<lambda>r. (map_extent (fst r), depth_extent (fst r)))
     (MapCrossSection (6.4, 4.8)
        (default_args\<lparr>arg_latitudes := Some [-12.8, -12.7], arg_longitudes := Some [45.3, 45.4],
           arg_depths := Some [10, 10], arg_fill_figure := False\<rparr>))
     = Inr ((PyTuple, [45.28, 45.42, -12.82, -12.68]), (PyTuple, [10, 10]))"
    using samples_depth_same samples_map_demo
    by (intro MapCrossSection_no_fill) (simp_all add: default_args_def)
  then show ?thesis using recheck_depth_same by blast
qed

section \<open>Properties of the panel layout\<close>

lemma scale_arith:
  fixes X Y fx fy :: real
  assumes "0 < X" "0 < Y" "0 < fx" "0 < fy"
  shows "fy / Y * ((fx / fy) / (X / Y)) = fx / X"
    and "fx / X * ((X / Y) / (fx / fy)) = fy / Y"
    and "X / Y = fx / fy \<Longrightarrow> fx / X = fy / Y"
  using assms by (simp_all add: field_simps)

lemma scale_factors_equal:
  assumes "0 < xrange_km self" "0 < yrange_km self"
    and "0 < fig_xrange self fig" "0 < fig_yrange self fig"
  shows "fst (scale_factors self fig) = snd (scale_factors self fig)
       \<and> 0 < fst (scale_factors self fig)"
proof -
  define X where "X = xrange_km self"
  define Y where "Y = yrange_km self"
  define fx where "fx = fig_xrange self fig"
  define fy where "fy = fig_yrange self fig"
  have pos: "0 < X" "0 < Y" "0 < fx" "0 < fy"
    using assms by (simp_all add: X_def Y_def fx_def fy_def)
  have sf: "scale_factors self fig =
      (if X / Y > fx / fy then (fx / X, fy / Y * ((fx / fy) / (X / Y)))
       else if X / Y < fx / fy then (fx / X * ((X / Y) / (fx / fy)), fy / Y)
       else (fx / X, fy / Y))"
    by (simp add: scale_factors_def plot_aspect_def fig_aspect_def Let_def X_def Y_def fx_def fy_def)
  have "X / Y = fx / fy" if "\<not> X / Y > fx / fy" "\<not> X / Y < fx / fy"
    using that by simp
  then show ?thesis
    using pos scale_arith [OF pos] by (auto simp: sf)
qed

lemma cos_mean_lat_pos:
  fixes c d :: real
  assumes "c < d" "- 90 \<le> c" "d \<le> 90"
  shows "0 < cos (radians ((c + d) / 2))"
proof -
  define m where "m = (c + d) / 2"
  have m: "- 90 < m" "m < 90" using assms by (simp_all add: m_def)
  have k: "0 < pi / 180" using pi_gt_zero by simp
  have "(- 90) * (pi / 180) < m * (pi / 180)" "m * (pi / 180) < 90 * (pi / 180)"
    using m k by (simp_all only: mult_strict_right_mono)
  then have "- (pi / 2) < radians m" "radians m < pi / 2"
    by (simp_all add: radians_def)
  then show ?thesis unfolding m_def by (rule cos_gt_zero_pi)
qed

lemma km_per_deg_lon_pos:
  "valid_map_extent (map_extent self) \<Longrightarrow> 0 < km_per_deg_lon self"
  by (simp add: valid_map_extent_def km_per_deg_lon_def km_per_deg_lat_def lat_min_def
      lat_max_def cos_mean_lat_pos)

lemma ranges_pos:
  assumes "valid_map_extent (map_extent self)" "valid_depth_extent (depth_extent self)"
  shows "0 < xrange_km self" "0 < yrange_km self"
proof -
  have "0 < lonrange self" "0 < latrange self" "0 < depthrange self"
    using assms
    by (simp_all add: valid_map_extent_def valid_depth_extent_def lonrange_def latrange_def
        depthrange_def lon_min_def lon_max_def lat_min_def lat_max_def)
  moreover have "0 < km_per_deg_lat" by (simp add: km_per_deg_lat_def)
  ultimately show "0 < xrange_km self" "0 < yrange_km self"
    using km_per_deg_lon_pos [OF assms(1)]
    by (simp_all add: xrange_km_def yrange_km_def lonrange_km_def latrange_km_def add_pos_pos)
qed

lemma adjustminmax_tuple:
  assumes "fst (map_extent self) = PyTuple" "length (snd (map_extent self)) = 4"
  shows "adjustminmax fa self = Inl TypeError"
  using assms
  by (simp add: adjustminmax_def isub_item_def iadd_item_def getitem_def setitem_def Let_def)

lemma adjustminmax_list:
  assumes "map_extent self = (PyList, [a, b, c, d])"
  shows "adjustminmax fa self =
     Inr (self\<lparr>map_extent :=
       (PyList,
        if fa > plot_aspect self
        then [a - ((yrange_km self * fa) - xrange_km self) / 2 / km_per_deg_lon self,
              b + ((yrange_km self * fa) - xrange_km self) / 2 / km_per_deg_lon self, c, d]
        else [a, b, c - ((xrange_km self / fa) - yrange_km self) / 2 / km_per_deg_lat,
              d + ((xrange_km self / fa) - yrange_km self) / 2 / km_per_deg_lat])\<rparr>)"
  using assms
  by (simp add: adjustminmax_def isub_item_def iadd_item_def getitem_def setitem_def Let_def)

lemma adjusted_aspect:
  assumes me: "map_extent self = (PyList, [a, b, c, d])"
    and pos: "0 < xrange_km self" "0 < yrange_km self" "0 < fa" "0 < km_per_deg_lon self"
    and adj: "adjustminmax fa self = Inr self'"
  shows "plot_aspect self' = fa \<and> 0 < xrange_km self' \<and> 0 < yrange_km self'"
proof -
  define X where "X = xrange_km self"
  define Y where "Y = yrange_km self"
  define k where "k = km_per_deg_lon self"
  define D where "D = depthrange self"
  have kl: "km_per_deg_lat = 111.12" by (simp add: km_per_deg_lat_def)
  have Xeq: "X = (b - a) * k + D" and Yeq: "Y = (d - c) * km_per_deg_lat + D"
    and keq: "k = km_per_deg_lat * cos (radians ((c + d) / 2))"
    using me
    by (simp_all add: X_def Y_def k_def D_def xrange_km_def yrange_km_def lonrange_km_def
        latrange_km_def lonrange_def latrange_def lon_min_def lon_max_def lat_min_def lat_max_def
        km_per_deg_lon_def)
  have p: "0 < X" "0 < Y" "0 < k" using pos by (simp_all add: X_def Y_def k_def)
  show ?thesis
  proof (cases "fa > plot_aspect self")
    case True
    define dl where "dl = (Y * fa - X) / 2 / k"
    have s': "self' = self\<lparr>map_extent := (PyList, [a - dl, b + dl, c, d])\<rparr>"
      using adj True adjustminmax_list [OF me, of fa] by (simp add: dl_def X_def Y_def k_def)
    have "xrange_km self' = (b + dl - (a - dl)) * k + D"
      by (simp add: s' xrange_km_def lonrange_km_def lonrange_def lon_min_def lon_max_def
          km_per_deg_lon_def lat_min_def lat_max_def depthrange_def D_def keq)
    also have "\<dots> = X + 2 * dl * k" by (simp add: Xeq algebra_simps)
    also have "\<dots> = Y * fa" using p by (simp add: dl_def field_simps)
    finally have X': "xrange_km self' = Y * fa" .
    have Y': "yrange_km self' = Y"
      by (simp add: s' Yeq D_def yrange_km_def latrange_km_def latrange_def lat_min_def
          lat_max_def depthrange_def)
    show ?thesis using p pos(3) by (simp add: plot_aspect_def X' Y')
  next
    case False
    define dl where "dl = (X / fa - Y) / 2 / km_per_deg_lat"
    have s': "self' = self\<lparr>map_extent := (PyList, [a, b, c - dl, d + dl])\<rparr>"
      using adj False adjustminmax_list [OF me, of fa] by (simp add: dl_def X_def Y_def)
    have "c - dl + (d + dl) = c + d" by simp
    then have X': "xrange_km self' = X"
      by (simp add: s' Xeq keq xrange_km_def lonrange_km_def lonrange_def lon_min_def lon_max_def
          km_per_deg_lon_def lat_min_def lat_max_def depthrange_def D_def)
    have "yrange_km self' = (d + dl - (c - dl)) * km_per_deg_lat + D"
      by (simp add: s' yrange_km_def latrange_km_def latrange_def lat_min_def lat_max_def
          depthrange_def D_def)
    also have "\<dots> = Y + 2 * dl * km_per_deg_lat" by (simp add: Yeq algebra_simps)
    also have "\<dots> = X / fa" by (simp add: dl_def kl field_simps)
    finally have Y': "yrange_km self' = X / fa" .
    show ?thesis using p pos(3) by (simp add: plot_aspect_def X' Y')
  qed
qed

lemma list4: "length xs = 4 \<Longrightarrow> \<exists>a b c d. xs = [a, b, c, d]"
  by (auto simp: numeral_eq_Suc length_Suc_conv)

lemma valid_map_extent_list:
  assumes "valid_map_extent s"
  obtains a b c d where "snd s = [a, b, c, d]" "a < b" "c < d" "- 90 \<le> c" "d \<le> 90"
proof -
  from assms have "length (snd s) = 4" by (simp add: valid_map_extent_def)
  then obtain a b c d where eq: "snd s = [a, b, c, d]" using list4 by blast
  with assms that show thesis by (simp add: valid_map_extent_def)
qed

lemma adjusted_ranges:
  assumes me: "map_extent self = (PyList, [a, b, c, d])"
    and v: "valid_map_extent (map_extent self)" "valid_depth_extent (depth_extent self)"
    and fa: "0 < fa"
    and adj: "adjustminmax fa self = Inr self'"
  shows "0 < lonrange_km self' \<and> 0 < latrange_km self' \<and> 0 < depthrange self'"
proof -
  define X where "X = xrange_km self"
  define Y where "Y = yrange_km self"
  define k where "k = km_per_deg_lon self"
  have keq: "k = km_per_deg_lat * cos (radians ((c + d) / 2))"
    using me by (simp add: k_def km_per_deg_lon_def lat_min_def lat_max_def)
  have p: "0 < X" "0 < Y" "0 < k" "0 < km_per_deg_lat"
    using ranges_pos [OF v] km_per_deg_lon_pos [OF v(1)]
    by (simp_all add: X_def Y_def k_def km_per_deg_lat_def)
  have ord: "a < b" "c < d" using v(1) me by (simp_all add: valid_map_extent_def)
  have dr: "0 < depthrange self" using v(2) by (simp add: valid_depth_extent_def depthrange_def)
  show ?thesis
  proof (cases "fa > plot_aspect self")
    case True
    define dl where "dl = (Y * fa - X) / 2 / k"
    have s': "self' = self\<lparr>map_extent := (PyList, [a - dl, b + dl, c, d])\<rparr>"
      using adj True adjustminmax_list [OF me, of fa] by (simp add: dl_def X_def Y_def k_def)
    have "X / Y < fa" using True by (simp add: plot_aspect_def X_def Y_def)
    then have "X < Y * fa" using p by (simp add: field_simps)
    then have "0 < dl" using p by (simp add: dl_def)
    then have "0 < (b + dl - (a - dl)) * k" using ord p by simp
    then have "0 < lonrange_km self'"
      by (simp add: s' lonrange_km_def lonrange_def lon_min_def lon_max_def km_per_deg_lon_def
          lat_min_def lat_max_def keq)
    moreover have "0 < latrange_km self'"
      using ord p
      by (simp add: s' latrange_km_def latrange_def lat_min_def lat_max_def)
    ultimately show ?thesis using dr by (simp add: s' depthrange_def)
  next
    case False
    define dl where "dl = (X / fa - Y) / 2 / km_per_deg_lat"
    have s': "self' = self\<lparr>map_extent := (PyList, [a, b, c - dl, d + dl])\<rparr>"
      using adj False adjustminmax_list [OF me, of fa] by (simp add: dl_def X_def Y_def)
    have "fa \<le> X / Y" using False by (simp add: plot_aspect_def X_def Y_def)
    then have "Y \<le> X / fa" using p fa by (simp add: field_simps)
    then have "0 \<le> dl" using p by (simp add: dl_def)
    then have "0 < (d + dl - (c - dl)) * km_per_deg_lat" using ord p by simp
    then have "0 < latrange_km self'"
      by (simp add: s' latrange_km_def latrange_def lat_min_def lat_max_def)
    moreover have "c - dl + (d + dl) = c + d" by simp
    then have "0 < lonrange_km self'"
      using ord p
      by (simp add: s' lonrange_km_def lonrange_def lon_min_def lon_max_def km_per_deg_lon_def
          lat_min_def lat_max_def keq)
    ultimately show ?thesis using dr by (simp add: s' depthrange_def)
  qed
qed

lemma adjustminmax_fields:
  assumes "adjustminmax fa self = Inr self'"
  shows "depth_extent self' = depth_extent self \<and> pad_left self' = pad_left self
       \<and> pad_right self' = pad_right self \<and> pad_top self' = pad_top self
       \<and> pad_bottom self' = pad_bottom self"
  using assms
  by (auto simp: adjustminmax_def Let_def ebind_def split: if_splits sum.splits)

lemma expand_to_fill_props:
  assumes v: "valid_layout self fig" and ex: "expand_to_fill self fig fill = Inr self'"
  shows "0 < xrange_km self' \<and> 0 < yrange_km self'
       \<and> 0 < lonrange_km self' \<and> 0 < latrange_km self' \<and> 0 < depthrange self'
       \<and> fig_xrange self' fig = fig_xrange self fig \<and> fig_yrange self' fig = fig_yrange self fig
       \<and> pad_left self' = pad_left self \<and> pad_bottom self' = pad_bottom self
       \<and> (fill \<longrightarrow> plot_aspect self' = fig_aspect self fig)"
proof (cases fill)
  case False
  then have "self' = self" using ex by (simp add: expand_to_fill_def)
  moreover have vm: "valid_map_extent (map_extent self)" and vd: "valid_depth_extent (depth_extent self)"
    using v by (simp_all add: valid_layout_def)
  moreover have "0 < lonrange self" "0 < latrange self" "0 < depthrange self"
    using vm vd
    by (simp_all add: valid_map_extent_def valid_depth_extent_def lonrange_def latrange_def
        depthrange_def lon_min_def lon_max_def lat_min_def lat_max_def)
  ultimately show ?thesis
    using False ranges_pos [OF vm vd] km_per_deg_lon_pos [OF vm]
    by (simp add: lonrange_km_def latrange_km_def km_per_deg_lat_def)
next
  case True
  have vm: "valid_map_extent (map_extent self)" and vd: "valid_depth_extent (depth_extent self)"
    and f: "0 < fig_xrange self fig" "0 < fig_yrange self fig"
    using v by (simp_all add: valid_layout_def)
  have adj: "adjustminmax (fig_aspect self fig) self = Inr self'"
    using ex True by (simp add: expand_to_fill_def)
  have fa: "0 < fig_aspect self fig" using f by (simp add: fig_aspect_def)
  from vm obtain a b c d where l: "snd (map_extent self) = [a, b, c, d]"
    by (rule valid_map_extent_list)
  have "fst (map_extent self) = PyList"
  proof (cases "fst (map_extent self)")
    case PyTuple
    then show ?thesis using adjustminmax_tuple [of self "fig_aspect self fig"] adj l by simp
  qed simp
  then have me: "map_extent self = (PyList, [a, b, c, d])" using l by (simp add: prod_eq_iff)
  show ?thesis
    using adjusted_aspect [OF me ranges_pos [OF vm vd] fa km_per_deg_lon_pos [OF vm] adj]
      adjusted_ranges [OF me vm vd fa adj] adjustminmax_fields [OF adj]
    by (simp add: fig_xrange_def fig_yrange_def)
qed

lemma scale_factors_fill:
  assumes "plot_aspect self = fig_aspect self fig"
  shows "fst (scale_factors self fig) = fig_xrange self fig / xrange_km self"
  using assms by (simp add: scale_factors_def Let_def)

lemma demo_valid: "valid_layout demo_mcs (5, 3)"
  by (simp add: demo_mcs_def valid_layout_def valid_map_extent_def valid_depth_extent_def
      fig_xrange_def fig_yrange_def)

lemma demo_k: "km_per_deg_lon demo_mcs = 111.12"
  by (simp add: demo_mcs_def km_per_deg_lon_def km_per_deg_lat_def radians_def lat_min_def
      lat_max_def)

lemma demo_X: "xrange_km demo_mcs = 222.24"
  by (simp add: demo_k xrange_km_def lonrange_km_def lonrange_def lon_min_def lon_max_def
      depthrange_def)
     (simp add: demo_mcs_def)

lemma demo_Y: "yrange_km demo_mcs = 333.36"
  by (simp add: yrange_km_def latrange_km_def latrange_def lat_min_def lat_max_def depthrange_def
      km_per_deg_lat_def demo_mcs_def)

lemma demo_fa: "fig_aspect demo_mcs (5, 3) = 2"
  by (simp add: fig_aspect_def fig_xrange_def fig_yrange_def demo_mcs_def)

lemma demo_expand: "expand_to_fill demo_mcs (5, 3) True = Inr demo_expanded"
proof -
  have me: "map_extent demo_mcs = (PyList, [0, 1, -1, 1])" by (simp add: demo_mcs_def)
  have pa: "plot_aspect demo_mcs < 2" by (simp add: plot_aspect_def demo_X demo_Y)
  show ?thesis
    using pa
    by (simp add: expand_to_fill_def demo_fa adjustminmax_list [OF me] demo_X demo_Y demo_k
        demo_expanded_def)
qed

lemma demo_expanded_ranges:
  "lonrange_km demo_expanded = 555.6" "latrange_km demo_expanded = 222.24"
  "depthrange demo_expanded = 111.12"
  by (simp_all add: demo_expanded_def demo_mcs_def lonrange_km_def latrange_km_def lonrange_def
      latrange_def lon_min_def lon_max_def lat_min_def lat_max_def depthrange_def
      km_per_deg_lon_def km_per_deg_lat_def radians_def)

lemma demo_scale: "scale_factors demo_expanded (5, 3) = (4 / 666.72, 2 / 333.36)"
  by (simp add: scale_factors_def plot_aspect_def fig_aspect_def xrange_km_def yrange_km_def
      demo_expanded_ranges fig_xrange_def fig_yrange_def Let_def)
     (simp add: demo_expanded_def demo_mcs_def)

lemma demo_rects:
  "make_rects demo_mcs (5, 3) True =
     Inr ((\<lparr>rect_left = 1 / 10, rect_bottom = 7 / 18, rect_width = 2 / 3, rect_height = 4 / 9\<rparr>,
           \<lparr>rect_left = 1 / 10, rect_bottom = 1 / 6, rect_width = 2 / 3, rect_height = 2 / 9\<rparr>,
           \<lparr>rect_left = 23 / 30, rect_bottom = 7 / 18, rect_width = 2 / 15, rect_height = 4 / 9\<rparr>),
          demo_expanded)"
  by (simp add: make_rects_def demo_expand axes_rects_def demo_scale demo_expanded_ranges Let_def)
     (simp add: demo_expanded_def demo_mcs_def)

text \<open>
  Claim C1. For a valid map extent, depth extent, figure size and padding, whenever the
  layout gets past the optional expansion of the extent (with or without
  \<open>fill_figure\<close>), the two scale factors \<open>inch_per_km_x\<close> and \<open>inch_per_km_y\<close> are
  equal after the adjustment, and positive, so that their ratio is 1 for every figure
  size; and in the rectangles built from them one kilometre takes this same number of
  inches along the longitude and the latitude axis of the map and along the depth axis
  of either cross-section.
\<close>

theorem panel_scale_isometric:
  assumes "valid_layout self fig" and "expand_to_fill self fig fill = Inr self'"
  shows "fst (scale_factors self' fig) = snd (scale_factors self' fig)
       \<and> 0 < fst (scale_factors self' fig)
       \<and> fst (scale_factors self' fig) / snd (scale_factors self' fig) = 1
       \<and> (case axes_rects self' fig (scale_factors self' fig) of
            (rect_map, rect_xz, rect_zy) \<Rightarrow>
              rect_width rect_map * fst fig / lonrange_km self' = fst (scale_factors self' fig)
            \<and> rect_height rect_map * snd fig / latrange_km self' = fst (scale_factors self' fig)
            \<and> rect_height rect_xz * snd fig / depthrange self' = fst (scale_factors self' fig)
            \<and> rect_width rect_zy * fst fig / depthrange self' = fst (scale_factors self' fig))"
proof -
  have f: "0 < fig_xrange self fig" "0 < fig_yrange self fig"
    and pads: "0 \<le> pad_left self" "0 \<le> pad_right self" "0 \<le> pad_top self" "0 \<le> pad_bottom self"
    using assms(1) by (simp_all add: valid_layout_def)
  have fig: "0 < fst fig" "0 < snd fig"
    using f pads by (simp_all add: fig_xrange_def fig_yrange_def)
  note pr = expand_to_fill_props [OF assms]
  have p: "0 < xrange_km self'" "0 < yrange_km self'"
    "0 < fig_xrange self' fig" "0 < fig_yrange self' fig"
    using pr f by simp_all
  define ix where "ix = fst (scale_factors self' fig)"
  define iy where "iy = snd (scale_factors self' fig)"
  have eq: "ix = iy" "0 < ix" using scale_factors_equal [OF p] by (simp_all add: ix_def iy_def)
  have r: "0 < lonrange_km self'" "0 < latrange_km self'" "0 < depthrange self'"
    using pr by simp_all
  have phys: "lonrange_km self' * ix / fst fig * fst fig / lonrange_km self' = ix"
    "latrange_km self' * iy / snd fig * snd fig / latrange_km self' = ix"
    "depthrange self' * iy / snd fig * snd fig / depthrange self' = ix"
    "depthrange self' * ix / fst fig * fst fig / depthrange self' = ix"
    using r fig eq by simp_all
  have sf: "scale_factors self' fig = (ix, ix)"
    using eq by (simp add: ix_def iy_def prod_eq_iff)
  have "case axes_rects self' fig (ix, ix) of
            (rect_map, rect_xz, rect_zy) \<Rightarrow>
              rect_width rect_map * fst fig / lonrange_km self' = ix
            \<and> rect_height rect_map * snd fig / latrange_km self' = ix
            \<and> rect_height rect_xz * snd fig / depthrange self' = ix
            \<and> rect_width rect_zy * fst fig / depthrange self' = ix"
    using phys eq by (simp add: axes_rects_def Let_def)
  then show ?thesis using eq by (simp add: sf)
qed

theorem panel_scale_isometric_witness:
  "valid_layout demo_mcs (5, 3)
   \<and> expand_to_fill demo_mcs (5, 3) True = Inr demo_expanded
   \<and> fst (scale_factors demo_expanded (5, 3)) = snd (scale_factors demo_expanded (5, 3))
   \<and> fst (scale_factors demo_expanded (5, 3)) / snd (scale_factors demo_expanded (5, 3)) = 1"
  using panel_scale_isometric [OF demo_valid demo_expand] demo_valid demo_expand by blast

text \<open>
  Claim C2. In fill-figure mode the longitude extent (when the figure is relatively wider
  than the plot) or else the latitude extent is to be expanded symmetrically until the
  plot aspect equals the figure aspect. For an extent held in a list this is what
  \<open>_adjustminmax\<close> does (lemmas \<open>adjustminmax_list\<close> and \<open>adjusted_aspect\<close>). The extent
  that \<open>_get_map_extent\<close> computes from samples is a tuple, and the assignment to its
  items raises TypeError: with the default \<open>fill_figure=True\<close>, constructing a
  \<open>MapCrossSection\<close> from latitudes, longitudes and depths fails.
\<close>

theorem fill_figure_on_sample_extent_raises:
  "MapCrossSection (6.4, 4.8)
     (default_args\<lparr>arg_latitudes := Some [-13, -12], arg_longitudes := Some [45, 46],
        arg_depths := Some [0, 50]\<rparr>) = Inl TypeError"
proof -
  have m: "get_map_extent None (Some [-13, -12]) (Some [45, 46]) 0.2 =
      Inr (PyTuple, [44.8, 46.2, -13.2, -11.8])"
    by (simp add: get_map_extent_def samples_map_extent_def py_min_def py_max_def)
  have d: "get_depth_extent None (Some [0, 50]) 0.2 = Inr (PyTuple, [-10, 60])"
    by (simp add: get_depth_extent_def samples_depth_extent_def py_min_def py_max_def)
  have "make_rects \<lparr>map_extent = (PyTuple, [44.8, 46.2, -13.2, -11.8]),
      depth_extent = (PyTuple, [-10, 60]), pad_left = 0.6, pad_right = 0.6, pad_top = 0.4,
      pad_bottom = 0.4, coastlines = None\<rparr> (6.4, 4.8) True = Inl TypeError"
    by (simp add: make_rects_def expand_to_fill_def adjustminmax_tuple)
  then show ?thesis
    using m d by (simp add: MapCrossSection_def default_args_def)
qed

text \<open>
  Claim C3. For a valid extent, figure size and padding, the three rectangles that
  \<open>_make_rects\<close> returns satisfy: the map rectangle and the longitude-depth rectangle
  below it have the same left and width; the map rectangle and the depth-latitude
  rectangle to its right have the same bottom and height; no two of them overlap; all
  have positive width and height; and with \<open>fill_figure\<close> the widths of the map and of
  the depth strip add up to the usable fraction of the figure width.
\<close>

theorem panel_rects_aligned:
  assumes v: "valid_layout self fig"
    and mk: "make_rects self fig fill = Inr ((rect_map, rect_xz, rect_zy), self')"
  shows "rect_left rect_map = rect_left rect_xz \<and> rect_width rect_map = rect_width rect_xz
       \<and> rect_bottom rect_map = rect_bottom rect_zy \<and> rect_height rect_map = rect_height rect_zy
       \<and> \<not> overlap rect_map rect_xz \<and> \<not> overlap rect_map rect_zy \<and> \<not> overlap rect_xz rect_zy
       \<and> 0 < rect_width rect_map \<and> 0 < rect_height rect_map
       \<and> 0 < rect_height rect_xz \<and> 0 < rect_width rect_zy
       \<and> (fill \<longrightarrow> rect_width rect_map + rect_width rect_zy = fig_xrange self fig / fst fig)"
proof -
  from mk obtain ex: "expand_to_fill self fig fill = Inr self'"
    and rs: "(rect_map, rect_xz, rect_zy) = axes_rects self' fig (scale_factors self' fig)"
    by (auto simp: make_rects_def ebind_def split: sum.splits)
  note pr = expand_to_fill_props [OF v ex]
  have f: "0 < fig_xrange self fig" "0 < fig_yrange self fig"
    and pads: "0 \<le> pad_left self" "0 \<le> pad_right self" "0 \<le> pad_top self" "0 \<le> pad_bottom self"
    using v by (simp_all add: valid_layout_def)
  have fig: "0 < fst fig" "0 < snd fig"
    using f pads by (simp_all add: fig_xrange_def fig_yrange_def)
  define ix where "ix = fst (scale_factors self' fig)"
  define iy where "iy = snd (scale_factors self' fig)"
  have p: "0 < xrange_km self'" "0 < yrange_km self'"
    "0 < fig_xrange self' fig" "0 < fig_yrange self' fig"
    using pr f by simp_all
  have i: "0 < ix" "0 < iy" using scale_factors_equal [OF p] by (simp_all add: ix_def iy_def)
  have rm: "rect_map = \<lparr>rect_left = pad_left self' / fst fig,
      rect_bottom = pad_bottom self' / snd fig + depthrange self' * iy / snd fig,
      rect_width = lonrange_km self' * ix / fst fig,
      rect_height = latrange_km self' * iy / snd fig\<rparr>"
    and rxz: "rect_xz = \<lparr>rect_left = pad_left self' / fst fig,
      rect_bottom = pad_bottom self' / snd fig,
      rect_width = lonrange_km self' * ix / fst fig,
      rect_height = depthrange self' * iy / snd fig\<rparr>"
    and rzy: "rect_zy = \<lparr>rect_left = pad_left self' / fst fig + lonrange_km self' * ix / fst fig,
      rect_bottom = pad_bottom self' / snd fig + depthrange self' * iy / snd fig,
      rect_width = depthrange self' * ix / fst fig,
      rect_height = latrange_km self' * iy / snd fig\<rparr>"
    using rs by (simp_all add: axes_rects_def Let_def ix_def iy_def)
  have align: "rect_left rect_map = rect_left rect_xz \<and> rect_width rect_map = rect_width rect_xz
       \<and> rect_bottom rect_map = rect_bottom rect_zy \<and> rect_height rect_map = rect_height rect_zy"
    by (simp add: rm rxz rzy)
  have disj: "\<not> overlap rect_map rect_xz \<and> \<not> overlap rect_map rect_zy \<and> \<not> overlap rect_xz rect_zy"
    by (simp add: overlap_def rm rxz rzy)
  have posr: "0 < rect_width rect_map \<and> 0 < rect_height rect_map
       \<and> 0 < rect_height rect_xz \<and> 0 < rect_width rect_zy"
    using pr i fig by (simp add: rm rxz rzy)
  have sum: "rect_width rect_map + rect_width rect_zy = fig_xrange self fig / fst fig" if fill
  proof -
    have "plot_aspect self' = fig_aspect self' fig"
      using pr that by (simp add: fig_aspect_def)
    then have "ix = fig_xrange self fig / xrange_km self'"
      using scale_factors_fill [of self' fig] pr by (simp add: ix_def)
    moreover have "rect_width rect_map + rect_width rect_zy = xrange_km self' * ix / fst fig"
      by (simp add: rm rzy xrange_km_def algebra_simps add_divide_distrib)
    ultimately show ?thesis using p by simp
  qed
  show ?thesis using align disj posr sum by blast
qed

theorem panel_rects_aligned_witness:
  "valid_layout demo_mcs (5, 3)
   \<and> make_rects demo_mcs (5, 3) True =
       Inr ((\<lparr>rect_left = 1 / 10, rect_bottom = 7 / 18, rect_width = 2 / 3, rect_height = 4 / 9\<rparr>,
             \<lparr>rect_left = 1 / 10, rect_bottom = 1 / 6, rect_width = 2 / 3, rect_height = 2 / 9\<rparr>,
             \<lparr>rect_left = 23 / 30, rect_bottom = 7 / 18, rect_width = 2 / 15, rect_height = 4 / 9\<rparr>),
            demo_expanded)
   \<and> \<not> overlap \<lparr>rect_left = 1 / 10, rect_bottom = 7 / 18, rect_width = 2 / 3, rect_height = 4 / 9\<rparr>
                 \<lparr>rect_left = 1 / 10, rect_bottom = 1 / 6, rect_width = 2 / 3, rect_height = 2 / 9\<rparr>
   \<and> \<not> overlap \<lparr>rect_left = 1 / 10, rect_bottom = 7 / 18, rect_width = 2 / 3, rect_height = 4 / 9\<rparr>
                 \<lparr>rect_left = 23 / 30, rect_bottom = 7 / 18, rect_width = 2 / 15, rect_height = 4 / 9\<rparr>
   \<and> \<not> overlap \<lparr>rect_left = 1 / 10, rect_bottom = 1 / 6, rect_width = 2 / 3, rect_height = 2 / 9\<rparr>
                 \<lparr>rect_left = 23 / 30, rect_bottom = 7 / 18, rect_width = 2 / 15, rect_height = 4 / 9\<rparr>
   \<and> (2 / 3 + 2 / 15 :: real) = fig_xrange demo_mcs (5, 3) / 5"
  using panel_rects_aligned [OF demo_valid demo_rects] demo_valid demo_rects by simp

section \<open>Properties of the shapes\<close>

text \<open>
  Claim C6. \<open>Circle.contains(lon, lat)\<close> is true exactly when the distance in metres
  between the point and the centre, as the geodesic routine returns it, divided by
  1852 * 60 is at most the radius. The routine is a parameter: for every distance that
  is 0 between a point and itself, the centre is contained for every positive radius; a
  point whose distance in degrees exceeds the radius is not contained; and for the circle
  with centre (45.3, -12.8) and radius 0.1 the centre is contained and (46.0, -12.8) is
  not, given that these two points are more than 0.1 * 111120 m apart.
\<close>

theorem circle_contains_iff:
  "(Circle_contains gps2dist (Circle_init clon clat r) lon lat
      \<longleftrightarrow> gps2dist lat lon clat clon / (1852 * 60) \<le> r)
   \<and> (gps2dist clat clon clat clon = 0 \<and> 0 < r
        \<longrightarrow> Circle_contains gps2dist (Circle_init clon clat r) clon clat)
   \<and> (r < gps2dist lat lon clat clon / (1852 * 60)
        \<longrightarrow> \<not> Circle_contains gps2dist (Circle_init clon clat r) lon lat)
   \<and> (gps2dist (-12.8) 45.3 (-12.8) 45.3 = 0
        \<longrightarrow> Circle_contains gps2dist (Circle_init 45.3 (-12.8) 0.1) 45.3 (-12.8))
   \<and> (0.1 * (1852 * 60) < gps2dist (-12.8) 46.0 (-12.8) 45.3
        \<longrightarrow> \<not> Circle_contains gps2dist (Circle_init 45.3 (-12.8) 0.1) 46.0 (-12.8))"
  by (simp add: Circle_contains_def Circle_init_def Let_def)

theorem circle_contains_iff_witness:
  "taxicab_dist (-12.8) 45.3 (-12.8) 45.3 = 0 \<and> (0 :: real) < 0.1
   \<and> 0.1 * (1852 * 60) < taxicab_dist (-12.8) 46.0 (-12.8) 45.3
   \<and> 0.1 < taxicab_dist (-12.8) 46.0 (-12.8) 45.3 / (1852 * 60)
   \<and> Circle_contains taxicab_dist (Circle_init 45.3 (-12.8) 0.1) 45.3 (-12.8)
   \<and> \<not> Circle_contains taxicab_dist (Circle_init 45.3 (-12.8) 0.1) 46.0 (-12.8)"
proof -
  have z: "taxicab_dist (-12.8) 45.3 (-12.8) 45.3 = 0" by (simp add: taxicab_dist_def)
  have f: "0.1 * (1852 * 60) < taxicab_dist (-12.8) 46.0 (-12.8) 45.3"
    by (simp add: taxicab_dist_def)
  have g: "0.1 < taxicab_dist (-12.8) 46.0 (-12.8) 45.3 / (1852 * 60)"
    by (simp add: taxicab_dist_def)
  show ?thesis
    using circle_contains_iff
        [where gps2dist = taxicab_dist and clon = "45.3" and clat = "-12.8" and r = "0.1"
           and lon = "46.0" and lat = "-12.8"] z f g
    by simp
qed

text \<open>
  Claim C7, as the code has it. The constructors check nothing: \<open>Circle(lon, lat, r)\<close>
  returns a circle that stores the three values for every radius, zero and negative ones
  included, and \<open>Polygon(p)\<close> returns a polygon that stores the list for every list,
  those with fewer than three vertices included.
\<close>

theorem shape_constructors_accept_all:
  "Circle_call [lon, lat, r] = Inr \<lparr>longitude = lon, latitude = lat, radius = r\<rparr>
   \<and> Polygon_call [p] = Inr \<lparr>polygon = p\<rparr>"
  by (simp add: Circle_call_def Circle_init_def Polygon_call_def Polygon_init_def)

text \<open>
  The claim C7 as stated (construction fails for a non-positive radius and for fewer than
  three vertices) is false: circles of radius -1 and 0 and a polygon of two vertices are
  constructed.
\<close>

theorem degenerate_shapes_constructed:
  "Circle_call [45.3, -12.8, -1 :: real] = Inr \<lparr>longitude = 45.3, latitude = -12.8, radius = -1\<rparr>
   \<and> Circle_call [45.3, -12.8, 0 :: real] = Inr \<lparr>longitude = 45.3, latitude = -12.8, radius = 0\<rparr>
   \<and> Polygon_call [[[45.3, -12.8], [45.5, -12.8]]] = Inr \<lparr>polygon = [[45.3, -12.8], [45.5, -12.8]]\<rparr>"
  by (simp add: Circle_call_def Circle_init_def Polygon_call_def Polygon_init_def)

section \<open>Properties of the plotter\<close>

subsection \<open>Colours\<close>

lemma is_cluster_comment_simps:
  "is_cluster_comment None = False"
  "is_cluster_comment (Some t) = (t \<noteq> [] \<and> contains_str ''HypoDD cluster id'' t)"
  by (simp_all add: is_cluster_comment_def)

lemma find_cluster_id_none:
  "\<forall>c\<in>set cs. \<not> is_cluster_comment c \<Longrightarrow> find_cluster_id cs = Inr 0"
  by (induction cs rule: find_cluster_id.induct) (auto simp: is_cluster_comment_simps)

lemma find_cluster_id_first:
  assumes "\<forall>c\<in>set pre. \<not> is_cluster_comment c" and "is_cluster_comment (Some t)"
  shows "find_cluster_id (pre @ Some t # post) = py_int (after_last_colon t)"
  using assms
  by (induction pre rule: find_cluster_id.induct) (auto simp: is_cluster_comment_simps)

lemma py_int_examples:
  "py_int (after_last_colon ''HypoDD cluster id: 3'') = Inr 3"
  "py_int (after_last_colon ''HypoDD cluster id: 12'') = Inr 12"
  "py_int (after_last_colon ''HypoDD cluster id: n/a'') = Inl ValueError"
  "py_int [CHR 0x1C, CHR ''3''] = Inl ValueError"
  by (simp_all add: after_last_colon_def py_int_def trim_space_def is_space_def parse_digits_def
      digit_val_def int_max_str_digits_def)

lemma relocated_is_hypodd: "is_hypodd (method_id (relocated_origin cs))"
  by (simp add: relocated_origin_def is_hypodd_def upper_def upper_char_def)

lemma cmap_cases:
  "0 \<le> n \<Longrightarrow> n < 12 \<Longrightarrow> cmap n = Palette (nat (n mod 12))"
  "12 \<le> n \<Longrightarrow> cmap n = Palette 11"
  "n < 0 \<Longrightarrow> cmap n = Palette 0"
  by (simp_all add: cmap_def)

text \<open>
  Claim C8, as the code has it. An event whose last origin has no method id, or one
  without "HYPODD" (in upper case), gets the reserved colour. Every other event gets the
  colormap's colour for its cluster id, where the cluster id is the integer after the
  last colon of the first comment that contains "HypoDD cluster id", and 0 when no
  comment contains it. The colormap is called with the id itself: for an id from 0 to 11
  the colour is palette[id mod 12], for a larger id the last entry of the palette, for a
  negative id the first. When the text after the colon is not an integer, the ValueError
  of the conversion is raised.
\<close>

theorem cluster_color:
  "(\<not> is_hypodd (method_id org) \<longrightarrow> event_color org = Inr ColorInvalid)
   \<and> (is_hypodd (method_id org) \<and> (\<forall>c\<in>set (comments org). \<not> is_cluster_comment c)
        \<longrightarrow> event_color org = Inr (Palette 0))
   \<and> (is_hypodd (method_id org) \<and> comments org = pre @ Some t # post
        \<and> (\<forall>c\<in>set pre. \<not> is_cluster_comment c) \<and> is_cluster_comment (Some t)
        \<longrightarrow> (case py_int (after_last_colon t) of
               Inl e \<Rightarrow> event_color org = Inl e
             | Inr n \<Rightarrow>
                 (0 \<le> n \<and> n < 12 \<longrightarrow> event_color org = Inr (Palette (nat (n mod 12))))
               \<and> (12 \<le> n \<longrightarrow> event_color org = Inr (Palette 11))
               \<and> (n < 0 \<longrightarrow> event_color org = Inr (Palette 0))))"
proof -
  have a: "event_color org = Inr ColorInvalid" if "\<not> is_hypodd (method_id org)"
    using that by (simp add: event_color_def)
  have b: "event_color org = Inr (Palette 0)"
    if "is_hypodd (method_id org)" "\<forall>c\<in>set (comments org). \<not> is_cluster_comment c"
    using that by (simp add: event_color_def find_cluster_id_none cmap_def)
  have c: "case py_int (after_last_colon t) of
               Inl e \<Rightarrow> event_color org = Inl e
             | Inr n \<Rightarrow>
                 (0 \<le> n \<and> n < 12 \<longrightarrow> event_color org = Inr (Palette (nat (n mod 12))))
               \<and> (12 \<le> n \<longrightarrow> event_color org = Inr (Palette 11))
               \<and> (n < 0 \<longrightarrow> event_color org = Inr (Palette 0))"
    if "is_hypodd (method_id org)" "comments org = pre @ Some t # post"
      "\<forall>c\<in>set pre. \<not> is_cluster_comment c" "is_cluster_comment (Some t)"
  proof -
    have "event_color org = ebind (py_int (after_last_colon t)) (\<lambda>n. Inr (cmap n))"
      using that by (simp add: event_color_def find_cluster_id_first)
    then show ?thesis by (simp add: cmap_cases split: sum.splits)
  qed
  show ?thesis using a b c by blast
qed

theorem cluster_color_witness:
  "is_hypodd (method_id (relocated_origin [None, Some ''relocated'', Some ''HypoDD cluster id: 3'']))
   \<and> \<not> is_cluster_comment None \<and> \<not> is_cluster_comment (Some ''relocated'')
   \<and> is_cluster_comment (Some ''HypoDD cluster id: 3'')
   \<and> py_int (after_last_colon ''HypoDD cluster id: 3'') = Inr 3
   \<and> event_color (relocated_origin [None, Some ''relocated'', Some ''HypoDD cluster id: 3''])
       = Inr (Palette 3)"
proof -
  have a: "\<forall>c\<in>set [None, Some ''relocated'']. \<not> is_cluster_comment c"
    by (simp add: is_cluster_comment_simps)
  have b: "is_cluster_comment (Some ''HypoDD cluster id: 3'')"
    by (simp add: is_cluster_comment_simps)
  have c: "comments (relocated_origin [None, Some ''relocated'', Some ''HypoDD cluster id: 3''])
      = [None, Some ''relocated''] @ Some ''HypoDD cluster id: 3'' # []"
    by (simp add: relocated_origin_def)
  show ?thesis
    using cluster_color [where org = "relocated_origin [None, Some ''relocated'', Some ''HypoDD cluster id: 3'']"
        and pre = "[None, Some ''relocated'']" and t = "''HypoDD cluster id: 3''" and post = "[]"]
      a b c relocated_is_hypodd py_int_examples(1)
    by simp
qed

text \<open>
  The claim C8 as stated reduces the cluster id modulo 12, gives the reserved colour to
  an event without a valid cluster annotation, and has no raised error. For cluster 12
  the colour is the last entry of the palette, not entry 12 mod 12 = 0; a relocated event
  without any comment gets the palette colour of cluster 0, not the reserved colour; and
  a malformed annotation raises ValueError.
\<close>

theorem cluster_color_not_modulo:
  "event_color (relocated_origin [Some ''HypoDD cluster id: 12'']) = Inr (Palette 11)
   \<and> Palette 11 \<noteq> Palette (nat (12 mod 12))
   \<and> event_color (relocated_origin []) = Inr (Palette 0)
   \<and> Palette 0 \<noteq> ColorInvalid
   \<and> event_color (relocated_origin [Some ''HypoDD cluster id: n/a'']) = Inl ValueError"
proof -
  have "find_cluster_id [Some ''HypoDD cluster id: 12''] = Inr 12"
    "find_cluster_id [Some ''HypoDD cluster id: n/a''] = Inl ValueError"
    using py_int_examples(2,3) by simp_all
  then show ?thesis
    by (simp add: event_color_def relocated_is_hypodd cmap_def)
       (simp add: relocated_origin_def)
qed

subsection \<open>The two figures\<close>

lemma plot_events_inner_extents:
  assumes "plot_events_inner lib shape self pos me de = Inr (f, m, d)"
  shows "get_map_extent me (Some (latitudes pos)) (Some (longitudes pos)) 0.2 = Inr m
       \<and> get_depth_extent de (Some (depths pos)) 0.2 = Inr d
       \<and> fig_map_extent f = m \<and> fig_depth_extent f = d"
  using assms
  by (auto simp: plot_events_inner_def MapCrossSection_def make_rects_def expand_to_fill_def
      default_args_def ebind_def split: sum.splits if_splits option.splits)


lemma plot_events_inner_Inl_map:
  assumes "get_map_extent me (Some (latitudes pos)) (Some (longitudes pos)) 0.2 = Inl e"
  shows "plot_events_inner lib shape self pos me de = Inl e"
  using assms
  by (simp add: plot_events_inner_def MapCrossSection_def default_args_def)

lemma explicit_extent_returned:
  "get_map_extent (Some m) lats lons b = Inr m2 \<Longrightarrow> length (snd m) = 4 \<Longrightarrow> m2 = m"
  "get_depth_extent (Some d) ds b = Inr d2 \<Longrightarrow> 2 \<le> length (snd d) \<Longrightarrow> d2 = d"
  by (auto simp: get_map_extent_def check_map_extent_def get_depth_extent_def
      check_depth_extent_def getitem_def split: if_splits)

lemma set_plot_loop_fields:
  "set_plot_loop contains shape evs self = (r, self') \<Longrightarrow>
     cat self' = cat self \<and> p_map_extent self' = p_map_extent self
     \<and> p_depth_extent self' = p_depth_extent self \<and> p_coastlines self' = p_coastlines self
     \<and> file_base self' = file_base self \<and> original_filename self' = original_filename self
     \<and> relocated_filename self' = relocated_filename self \<and> saved self' = saved self"
proof (induction evs arbitrary: self)
  case Nil
  then show ?case by simp
next
  case (Cons ev evs)
  show ?case
  proof (cases "first_item (magnitudes ev)")
    case (Inl e)
    with Cons.prems show ?thesis by simp
  next
    case mag: (Inr mag)
    show ?thesis
    proof (cases "last_item (origins ev)")
      case (Inl e)
      with Cons.prems mag show ?thesis by auto
    next
      case o1: (Inr o1)
      show ?thesis
      proof (cases "event_color o1")
        case (Inl e)
        with Cons.prems mag o1 show ?thesis by auto
      next
        case (Inr col)
        with Cons.prems mag o1 Cons.IH show ?thesis by fastforce
      qed
    qed
  qed
qed

lemma set_plot_params_fields:
  "set_plot_params contains shape self = (r, self') \<Longrightarrow>
     p_map_extent self' = p_map_extent self \<and> p_depth_extent self' = p_depth_extent self
     \<and> original_filename self' = original_filename self
     \<and> relocated_filename self' = relocated_filename self \<and> saved self' = saved self"
  using set_plot_loop_fields
    [of contains shape "cat self" "self\<lparr>colors := [], p_magnitudes := [], inshape := []\<rparr>" r self']
  by (simp add: set_plot_params_def)

text \<open>
  What holds of the two figures: whenever \<open>_plot_original_relocated\<close> returns, exactly two
  files have been written, under the names \<open>{base}_original.pdf\<close> and
  \<open>{base}_relocated.pdf\<close>, and the second figure has the map extent and the depth extent
  of the first.
\<close>

lemma two_figures_same_extents:
  assumes "plot_original_relocated lib contains shape ms self0 = (Inr (), self')"
  shows "\<exists>f1 f2. saved self' = saved self0 @ [(file_base self0 @ ''_original.pdf'', f1),
                                               (file_base self0 @ ''_relocated.pdf'', f2)]
           \<and> fig_map_extent f2 = fig_map_extent f1
           \<and> fig_depth_extent f2 = fig_depth_extent f1"
proof -
  define self1 where "self1 = self0\<lparr>original_filename := file_base self0 @ ''_original.pdf'',
                         relocated_filename := file_base self0 @ ''_relocated.pdf''\<rparr>"
  from assms obtain original_pos relocated_pos self2 f1 m d f2 m2 d2 where
    sp: "set_plot_params contains shape self1 = (Inr (), self2)"
    and r1: "plot_events_inner lib shape (self2\<lparr>marker_size := ms\<rparr>) original_pos
              (p_map_extent self2) (p_depth_extent self2) = Inr (f1, m, d)"
    and r2: "plot_events_inner lib shape (self2\<lparr>marker_size := ms\<rparr>) relocated_pos
              (Some m) (Some d) = Inr (f2, m2, d2)"
    and s': "self' = self2\<lparr>marker_size := ms,
               saved := saved self2 @ [(original_filename self2, f1),
                                       (relocated_filename self2, f2)]\<rparr>"
    unfolding plot_original_relocated_def Let_def self1_def [symmetric]
    by (auto split: sum.splits prod.splits option.splits)
  have f: "original_filename self2 = file_base self0 @ ''_original.pdf''"
    "relocated_filename self2 = file_base self0 @ ''_relocated.pdf''"
    "saved self2 = saved self0"
    using set_plot_params_fields [OF sp] by (simp_all add: self1_def)
  note e1 = plot_events_inner_extents [OF r1]
  note e2 = plot_events_inner_extents [OF r2]
  have "m2 = m"
    using e1 e2 explicit_extent_returned(1) get_map_extent_length by blast
  moreover have "d2 = d"
    using e1 e2 explicit_extent_returned(2) get_depth_extent_length by blast
  ultimately show ?thesis using s' f e1 e2 by auto
qed




text \<open>
  Claim C10. Every call of \<open>plot_events\<close> with a circle argument (a non-empty list, as
  in \<open>[lon, lat, radius]\<close>) and no polygon raises TypeError before any figure is drawn
  or saved: the list is passed to \<open>Circle\<close> as its only argument, and \<open>Circle\<close> takes
  three.
\<close>

theorem circle_argument_raises:
  assumes "c \<noteq> []"
  shows "fst (plot_events lib contains self fb (Some c) None cl) = Inl TypeError
       \<and> saved (snd (plot_events lib contains self fb (Some c) None cl)) = saved self"
  using assms
  by (simp add: plot_events_def Circle_call_def Let_def split: option.splits)

theorem circle_argument_raises_witness:
  "[45.3, -12.8, 0.1] \<noteq> ([] :: real list)
   \<and> fst (plot_events demo_backend (\<lambda>sh lon lat. True) (HypoDDPlotter demo_catalog None None)
           ''hypoDDpy'' (Some [45.3, -12.8, 0.1]) None None) = Inl TypeError
   \<and> saved (snd (plot_events demo_backend (\<lambda>sh lon lat. True)
                   (HypoDDPlotter demo_catalog None None)
                   ''hypoDDpy'' (Some [45.3, -12.8, 0.1]) None None)) = []"
  using circle_argument_raises [of "[45.3, -12.8, 0.1]" demo_backend "\<lambda>sh lon lat. True"
      "HypoDDPlotter demo_catalog None None" "''hypoDDpy''" None]
  by (simp add: HypoDDPlotter_def)

end
